theory Spec2Isabelle
  imports Main
begin

section \<open>Characters and strings\<close>

text \<open>
  The program works on Python \<open>str\<close> values.  They are modelled as \<open>string\<close>
  (lists of 8-bit \<open>char\<close>), classified the way Python classifies ASCII text:
  a byte from \<open>0x80\<close> on is neither a letter, a digit nor white space.
\<close>

definition lowercase_letters :: string where
  "lowercase_letters = ''abcdefghijklmnopqrstuvwxyz''"

definition uppercase_letters :: string where
  "uppercase_letters = ''ABCDEFGHIJKLMNOPQRSTUVWXYZ''"

definition decimal_digits :: string where
  "decimal_digits = ''0123456789''"

text \<open>\<open>str.upper\<close> and \<open>str.lower\<close> on one character.\<close>

definition upper_chr :: "char \<Rightarrow> char" where
  "upper_chr c =
     (case map_of (zip lowercase_letters uppercase_letters) c of Some u \<Rightarrow> u | None \<Rightarrow> c)"

definition lower_chr :: "char \<Rightarrow> char" where
  "lower_chr c =
     (case map_of (zip uppercase_letters lowercase_letters) c of Some l \<Rightarrow> l | None \<Rightarrow> c)"

definition upper :: "string \<Rightarrow> string" where
  "upper s = map upper_chr s"

text \<open>
  White space as \<open>str.isspace\<close>, \<open>str.strip\<close>, \<open>str.split\<close> and the pattern \<open>\s\<close>
  see it: tab, line feed, vertical tab, form feed, carriage return, the four separators
  \<open>0x1C\<close> to \<open>0x1F\<close>, and the blank.
\<close>

definition is_space :: "char \<Rightarrow> bool" where
  "is_space c \<longleftrightarrow>
     c \<in> set [CHR 0x09, CHR 0x0A, CHR 0x0B, CHR 0x0C, CHR 0x0D,
               CHR 0x1C, CHR 0x1D, CHR 0x1E, CHR 0x1F, CHR 0x20]"

definition is_digit :: "char \<Rightarrow> bool" where
  "is_digit c \<longleftrightarrow> c \<in> set decimal_digits"

text \<open>A word character, for the boundary \<open>\b\<close>: a letter, a digit or the underscore.\<close>

definition is_word :: "char \<Rightarrow> bool" where
  "is_word c \<longleftrightarrow>
     c \<in> set lowercase_letters \<or> c \<in> set uppercase_letters \<or> c \<in> set decimal_digits
     \<or> c = CHR ''_''"

text \<open>\<open>s.strip()\<close>\<close>

definition strip :: "string \<Rightarrow> string" where
  "strip s = rev (dropWhile is_space (rev (dropWhile is_space s)))"

text \<open>\<open>int(x)\<close> on a string of decimal digits, as the distance patterns capture it.\<close>

definition digit_value :: "char \<Rightarrow> int" where
  "digit_value c = int (length (takeWhile (\<lambda>d. d \<noteq> c) decimal_digits))"

definition int_of_digits :: "string \<Rightarrow> int" where
  "int_of_digits s = foldl (\<lambda>n c. 10 * n + digit_value c) 0 s"

text \<open>\<open>s.replace(old, new)\<close>: every occurrence, left to right, without overlap.\<close>

fun replace_all :: "string \<Rightarrow> string \<Rightarrow> string \<Rightarrow> string" where
  "replace_all old new [] = []"
| "replace_all old new (c # cs) =
     (if old \<noteq> [] \<and> take (length old) (c # cs) = old
      then new @ replace_all old new (drop (length old) (c # cs))
      else c # replace_all old new cs)"

section \<open>Regular expressions\<close>

text \<open>
  The patterns of the program use literals, the classes \<open>\d\<close>, \<open>\s\<close>, \<open>.\<close> and
  bracketed sets, greedy repetition of one character, greedy options, alternation,
  capture groups and the anchors \<open>\b\<close>, \<open>^\<close> and \<open>$\<close>.  A pattern is a value of
  \<open>rx\<close>; the matcher returns every way to match, in the order in which Python's
  backtracking matcher tries them, so the head of the list is the match Python reports.
\<close>

datatype atom = Lit char | Digit | Space | Dot | OneOf string | NoneOf string

datatype rx =
    Atom atom
  | Rep atom nat "nat option"
  | Cat rx rx
  | Alt rx rx
  | Opt rx
  | Grp nat rx
  | WordB
  | Bol
  | Eol
  | Eps

text \<open>The flag \<open>ic\<close> is \<open>re.IGNORECASE\<close>.\<close>

fun atom_ok :: "bool \<Rightarrow> atom \<Rightarrow> char \<Rightarrow> bool" where
  "atom_ok ic (Lit a) c = (if ic then upper_chr a = upper_chr c else a = c)"
| "atom_ok ic Digit c = is_digit c"
| "atom_ok ic Space c = is_space c"
| "atom_ok ic Dot c = (c \<noteq> CHR 0x0A)"
| "atom_ok ic (OneOf s) c =
     (c \<in> set s \<or> (ic \<and> (upper_chr c \<in> set s \<or> lower_chr c \<in> set s)))"
| "atom_ok ic (NoneOf s) c =
     (\<not> (c \<in> set s \<or> (ic \<and> (upper_chr c \<in> set s \<or> lower_chr c \<in> set s))))"

text \<open>
  A position in the subject: the character before it (\<open>None\<close> at the start of the
  string), the text from it on, and the groups captured so far (latest first).
\<close>

type_synonym groups = "(nat \<times> string) list"
type_synonym mstate = "char option \<times> string \<times> groups"

text \<open>
  Greedy repetition \<open>{m,n}\<close> of a one-character test (\<open>n = None\<close>: no upper bound):
  the longest run first, then each shorter one down to \<open>m\<close> characters.
\<close>

fun rep :: "(char \<Rightarrow> bool) \<Rightarrow> nat \<Rightarrow> nat option \<Rightarrow> char option \<Rightarrow> string
    \<Rightarrow> (char option \<times> string) list" where
  "rep t m n p [] = (if m = 0 then [(p, [])] else [])"
| "rep t m n p (c # cs) =
     (if t c \<and> n \<noteq> Some 0 then rep t (m - 1) (map_option (\<lambda>k. k - 1) n) (Some c) cs else [])
     @ (if m = 0 then [(p, c # cs)] else [])"

definition at_boundary :: "char option \<Rightarrow> string \<Rightarrow> bool" where
  "at_boundary p s \<longleftrightarrow>
     (case p of None \<Rightarrow> False | Some a \<Rightarrow> is_word a)
     \<noteq> (case s of [] \<Rightarrow> False | b # _ \<Rightarrow> is_word b)"

fun rx_match :: "bool \<Rightarrow> rx \<Rightarrow> mstate \<Rightarrow> mstate list" where
  "rx_match ic (Atom a) (p, s, g) =
     (case s of [] \<Rightarrow> [] | c # cs \<Rightarrow> if atom_ok ic a c then [(Some c, cs, g)] else [])"
| "rx_match ic (Rep a m n) (p, s, g) =
     map (\<lambda>(p', s'). (p', s', g)) (rep (atom_ok ic a) m n p s)"
| "rx_match ic (Cat r1 r2) st = concat (map (rx_match ic r2) (rx_match ic r1 st))"
| "rx_match ic (Alt r1 r2) st = rx_match ic r1 st @ rx_match ic r2 st"
| "rx_match ic (Opt r) st = rx_match ic r st @ [st]"
| "rx_match ic (Grp i r) (p, s, g) =
     map (\<lambda>(p', s', g'). (p', s', (i, take (length s - length s') s) # g'))
       (rx_match ic r (p, s, g))"
| "rx_match ic WordB (p, s, g) = (if at_boundary p s then [(p, s, g)] else [])"
| "rx_match ic Bol (p, s, g) = (if p = None then [(p, s, g)] else [])"
| "rx_match ic Eol (p, s, g) = (if s = [] \<or> s = [CHR 0x0A] then [(p, s, g)] else [])"
| "rx_match ic Eps st = [st]"

text \<open>Sequences, alternatives and literal words of a pattern.\<close>

definition seq :: "rx list \<Rightarrow> rx" where
  "seq rs = foldr Cat rs Eps"

definition alts :: "rx list \<Rightarrow> rx" where
  "alts rs = foldr Alt (butlast rs) (last rs)"

definition lit :: "string \<Rightarrow> rx" where
  "lit s = seq (map (\<lambda>c. Atom (Lit c)) s)"

text \<open>
  A match object: the captured groups and the matched text (\<open>m.group(0)\<close>).
  \<open>group m i\<close> is \<open>m.group(i)\<close>, \<open>None\<close> for a group that took no part in the match.
\<close>

record rmatch =
  captures :: groups
  whole :: string

definition group :: "rmatch \<Rightarrow> nat \<Rightarrow> string option" where
  "group m i = map_of (captures m) i"

text \<open>\<open>re.match\<close>: a match at the start of the string only.\<close>

definition re_match :: "bool \<Rightarrow> rx \<Rightarrow> string \<Rightarrow> rmatch option" where
  "re_match ic r s =
     (case rx_match ic r (None, s, []) of
        [] \<Rightarrow> None
      | (p', s', g) # _ \<Rightarrow> Some \<lparr>captures = g, whole = take (length s - length s') s\<rparr>)"

text \<open>\<open>re.search\<close>: the leftmost position at which the pattern matches.\<close>

fun search_from :: "bool \<Rightarrow> rx \<Rightarrow> char option \<Rightarrow> string \<Rightarrow> rmatch option" where
  "search_from ic r p [] =
     (case rx_match ic r (p, [], []) of
        [] \<Rightarrow> None
      | (p', s', g) # _ \<Rightarrow> Some \<lparr>captures = g, whole = []\<rparr>)"
| "search_from ic r p (c # cs) =
     (case rx_match ic r (p, c # cs, []) of
        [] \<Rightarrow> search_from ic r (Some c) cs
      | (p', s', g) # _ \<Rightarrow>
          Some \<lparr>captures = g, whole = take (length (c # cs) - length s') (c # cs)\<rparr>)"

definition re_search :: "bool \<Rightarrow> rx \<Rightarrow> string \<Rightarrow> rmatch option" where
  "re_search ic r s = search_from ic r None s"

text \<open>
  The scan behind \<open>finditer\<close>, \<open>findall\<close> and \<open>sub\<close>: the subject cut into the
  matches and the characters between them, left to right.  \<open>skip\<close> counts the
  characters still covered by the previous match.  After an empty match the scan moves
  one character on; no pattern of the program can match the empty string.
\<close>

datatype seg = Gap char | Hit rmatch

fun rx_scan :: "bool \<Rightarrow> rx \<Rightarrow> nat \<Rightarrow> char option \<Rightarrow> string \<Rightarrow> seg list" where
  "rx_scan ic r skip p [] =
     (if skip = 0 then
        (case rx_match ic r (p, [], []) of
           [] \<Rightarrow> []
         | (p', s', g) # _ \<Rightarrow> [Hit \<lparr>captures = g, whole = []\<rparr>])
      else [])"
| "rx_scan ic r skip p (c # cs) =
     (if 0 < skip then rx_scan ic r (skip - 1) (Some c) cs
      else
        (case rx_match ic r (p, c # cs, []) of
           [] \<Rightarrow> Gap c # rx_scan ic r 0 (Some c) cs
         | (p', s', g) # _ \<Rightarrow>
             (let n = length (c # cs) - length s' in
              if n = 0 then Hit \<lparr>captures = g, whole = []\<rparr> # Gap c # rx_scan ic r 0 (Some c) cs
              else Hit \<lparr>captures = g, whole = take n (c # cs)\<rparr>
                     # rx_scan ic r (n - 1) (Some c) cs)))"

definition finditer :: "bool \<Rightarrow> rx \<Rightarrow> string \<Rightarrow> rmatch list" where
  "finditer ic r s =
     concat (map (\<lambda>x. case x of Gap c \<Rightarrow> [] | Hit m \<Rightarrow> [m]) (rx_scan ic r 0 None s))"

text \<open>\<open>findall\<close> for a pattern with one group: the text of group 1 of every match.\<close>

definition findall :: "bool \<Rightarrow> rx \<Rightarrow> string \<Rightarrow> string list" where
  "findall ic r s =
     map (\<lambda>m. case group m 1 of None \<Rightarrow> [] | Some t \<Rightarrow> t) (finditer ic r s)"

text \<open>\<open>re.sub(pattern, repl, s)\<close> with a function \<open>repl\<close> of the match.\<close>

definition re_sub :: "bool \<Rightarrow> rx \<Rightarrow> (rmatch \<Rightarrow> string) \<Rightarrow> string \<Rightarrow> string" where
  "re_sub ic r repl s =
     concat (map (\<lambda>x. case x of Gap c \<Rightarrow> [c] | Hit m \<Rightarrow> repl m) (rx_scan ic r 0 None s))"

section \<open>The patterns of the gear-note parser\<close>

definition hyphen :: rx where
  "hyphen = Atom (Lit (CHR ''-''))"

definition spaces :: rx where
  "spaces = Rep Space 0 None"

text \<open>\<open>AG_PATTERN = \bA-?GEAR\b\<close>, ignoring case.\<close>

definition AG_PATTERN :: rx where
  "AG_PATTERN = seq [WordB, lit ''A'', Opt hyphen, lit ''GEAR'', WordB]"

text \<open>
  \<open>GEAR_TYPE_RE\<close>, ignoring case: an optional \<open>HOOK\<close> (group 1) and white space,
  then one of the gear codes (group 2), between word boundaries.
\<close>

definition gear_codes :: rx where
  "gear_codes = alts
     [seq [lit ''BAK'', Opt hyphen, lit ''12'', Opt (Atom (OneOf ''ABab''))],
      seq [lit ''BAK'', Opt hyphen, lit ''14''],
      seq [lit ''BAK'', Opt hyphen, lit ''9''],
      seq [lit ''BAK'', Opt hyphen, lit ''13''],
      seq [lit ''BAK'', Opt hyphen, lit ''15''],
      seq [lit ''MB'', Opt hyphen, lit ''60''],
      lit ''EMAS'',
      seq [lit ''E'', Opt hyphen, lit ''5'',
           Opt (Atom (OneOf (uppercase_letters @ lowercase_letters)))],
      seq [lit ''E'', Opt hyphen, lit ''28'',
           Opt (Atom (OneOf (uppercase_letters @ lowercase_letters)))],
      seq [lit ''E'', Opt hyphen, lit ''32'',
           Opt (Atom (OneOf (uppercase_letters @ lowercase_letters)))],
      lit ''MAAS'']"

definition GEAR_TYPE_RE :: rx where
  "GEAR_TYPE_RE =
     seq [WordB, Opt (seq [Grp 1 (lit ''HOOK''), Rep Space 1 None]), Grp 2 gear_codes, WordB]"

text \<open>\<open>FT_FROM_THR_RE = (\d{2,5})\s*FT\s*FM\s*THR\<close>, ignoring case.\<close>

definition FT_FROM_THR_RE :: rx where
  "FT_FROM_THR_RE =
     seq [Grp 1 (Rep Digit 2 (Some 5)), spaces, lit ''FT'', spaces, lit ''FM'', spaces,
          lit ''THR'']"

text \<open>\<open>PAREN_FEET_RE = \((\d{2,5})\s*(?:FT|FT\.|')?\)\<close>, ignoring case.\<close>

definition PAREN_FEET_RE :: rx where
  "PAREN_FEET_RE =
     seq [Atom (Lit (CHR ''('')), Grp 1 (Rep Digit 2 (Some 5)), spaces,
          Opt (alts [lit ''FT'', seq [lit ''FT'', Atom (Lit (CHR ''.''))],
                     Atom (Lit (CHR 0x27))]),
          Atom (Lit (CHR '')''))]"

text \<open>
  The three rewriting patterns of the normalisation, matched with case:
  \<open>^BAK\s*-?\s*12([A-Z]?)$\<close> and \<open>^E\s*-?\s*N([A-Z]?)$\<close> for \<open>N\<close> in 5, 28, 32.
\<close>

definition BAK12_RE :: rx where
  "BAK12_RE =
     seq [Bol, lit ''BAK'', spaces, Opt hyphen, spaces, lit ''12'',
          Grp 1 (Opt (Atom (OneOf uppercase_letters))), Eol]"

definition E_RE :: "string \<Rightarrow> rx" where
  "E_RE n =
     seq [Bol, lit ''E'', spaces, Opt hyphen, spaces, lit n,
          Grp 1 (Opt (Atom (OneOf uppercase_letters))), Eol]"

text \<open>\<open>m.group(1)\<close> inside a replacement, where group 1 always takes part.\<close>

definition group1 :: "rmatch \<Rightarrow> string" where
  "group1 m = (case group m 1 of None \<Rightarrow> [] | Some t \<Rightarrow> t)"

section \<open>The gear-note parser\<close>

text \<open>
  Lines 104 to 112 of \<open>parse_gear_from_text\<close>: the matched code is put in upper case,
  then rewritten by the four steps in the order of the source.
\<close>

definition normalize_code :: "string \<Rightarrow> string" where
  "normalize_code gear =
     (let raw = upper gear;
          norm = re_sub False BAK12_RE (\<lambda>m. ''BAK-12'' @ group1 m) raw;
          norm = replace_all ''MB-60'' ''MB60'' norm;
          norm = re_sub False (E_RE ''5'') (\<lambda>m. ''E-5'' @ group1 m) norm;
          norm = re_sub False (E_RE ''28'') (\<lambda>m. ''E-28'' @ group1 m) norm;
          norm = re_sub False (E_RE ''32'') (\<lambda>m. ''E-32'' @ group1 m) norm
      in norm)"

text \<open>Line 113: \<open>gtype = ("HOOK " + norm) if hook else norm\<close>.\<close>

definition gear_type :: "string option \<Rightarrow> string \<Rightarrow> string" where
  "gear_type hook gear =
     (case hook of
        None \<Rightarrow> normalize_code gear
      | Some h \<Rightarrow> if h = [] then normalize_code gear else ''HOOK '' @ normalize_code gear)"

record mention =
  gtype :: string
  distances_from_threshold_ft :: "int list"
  distances_misc_ft :: "int list"
  raw :: string

text \<open>\<open>sorted(set(xs))\<close>\<close>

definition sorted_set :: "int list \<Rightarrow> int list" where
  "sorted_set xs = sort (remdups xs)"

definition parse_gear_from_text :: "string \<Rightarrow> mention list" where
  "parse_gear_from_text note =
     (let txt = strip note in
      if txt = [] then []
      else
        (let d_thr = map int_of_digits (findall True FT_FROM_THR_RE txt);
             d_misc = map int_of_digits (findall True PAREN_FEET_RE txt)
         in map (\<lambda>m.
                  \<lparr>gtype = gear_type (group m 1) (case group m 2 of None \<Rightarrow> [] | Some t \<Rightarrow> t),
                   distances_from_threshold_ft = sorted_set d_thr,
                   distances_misc_ft = sorted_set (filter (\<lambda>d. d \<notin> set d_thr) d_misc),
                   raw = txt\<rparr>)
              (finditer True GEAR_TYPE_RE txt)))"

section \<open>XML elements\<close>

text \<open>
  An element of \<open>xml.etree.ElementTree\<close>: its tag (\<open>{namespace}local\<close> for a qualified
  name), its attributes, its text (\<open>None\<close> when the element has none) and its children
  in document order.
\<close>

datatype elem =
  Elem (tag: string) (attrib: "(string \<times> string) list") (etext: "string option")
    (children: "elem list")

text \<open>
  \<open>localname\<close>: \<open>tag.split("}", 1)[1]\<close> for a tag that starts with a brace, the tag
  itself otherwise.  When the tag starts with a brace and has no closing brace, the
  split has one part and the index raises \<open>IndexError\<close>.
\<close>

datatype error = IndexError

definition localname :: "string \<Rightarrow> error + string" where
  "localname t =
     (case t of
        [] \<Rightarrow> Inr t
      | c # _ \<Rightarrow>
          if c = CHR ''{'' then
            (if CHR ''}'' \<in> set t then Inr (tl (dropWhile (\<lambda>x. x \<noteq> CHR ''}'') t))
             else Inl IndexError)
          else Inr t)"

text \<open>\<open>e.iter()\<close>: the element and its descendants, in document order.\<close>

fun iter :: "elem \<Rightarrow> elem list" where
  "iter (Elem t a x cs) = Elem t a x cs # concat (map iter cs)"

text \<open>\<open>(e.text or "").strip()\<close>\<close>

definition stripped_text :: "elem \<Rightarrow> string" where
  "stripped_text e = strip (case etext e of None \<Rightarrow> [] | Some t \<Rightarrow> t)"

text \<open>\<open>s or None\<close> for a string, and the truth value of an optional string.\<close>

definition or_none :: "string \<Rightarrow> string option" where
  "or_none s = (if s = [] then None else Some s)"

fun falsy :: "string option \<Rightarrow> bool" where
  "falsy None = True"
| "falsy (Some s) = (s = [])"

text \<open>\<open>AG_PATTERN.search(text) or GEAR_TYPE_RE.search(text)\<close>\<close>

definition mentions_gear :: "string \<Rightarrow> bool" where
  "mentions_gear t \<longleftrightarrow>
     re_search True AG_PATTERN t \<noteq> None \<or> re_search True GEAR_TYPE_RE t \<noteq> None"

text \<open>The loop of \<open>timeslice_has_gear\<close> over \<open>ts.iter()\<close>.\<close>

fun has_gear_loop :: "elem list \<Rightarrow> error + bool" where
  "has_gear_loop [] = Inr False"
| "has_gear_loop (note # rest) =
     (case localname (tag note) of
        Inl err \<Rightarrow> Inl err
      | Inr t \<Rightarrow>
          if t = ''note'' \<and> mentions_gear (stripped_text note) then Inr True
          else has_gear_loop rest)"

definition timeslice_has_gear :: "elem \<Rightarrow> error + bool" where
  "timeslice_has_gear ts = has_gear_loop (iter ts)"

text \<open>The loop of \<open>sample_gear_note\<close> over \<open>ts.iter()\<close>.\<close>

fun sample_loop :: "elem list \<Rightarrow> error + string option" where
  "sample_loop [] = Inr None"
| "sample_loop (note # rest) =
     (case localname (tag note) of
        Inl err \<Rightarrow> Inl err
      | Inr t \<Rightarrow>
          if t = ''note'' \<and> mentions_gear (stripped_text note)
          then Inr (Some (stripped_text note))
          else sample_loop rest)"

definition sample_gear_note :: "elem \<Rightarrow> error + string option" where
  "sample_gear_note ts = sample_loop (iter ts)"

text \<open>The loop of \<open>extract_gear_notes\<close>; \<open>index_gear_notes_across\<close> repeats it inline.\<close>

fun notes_loop :: "elem list \<Rightarrow> string list \<Rightarrow> error + string list" where
  "notes_loop [] notes = Inr notes"
| "notes_loop (note # rest) notes =
     (case localname (tag note) of
        Inl err \<Rightarrow> Inl err
      | Inr t \<Rightarrow>
          notes_loop rest
            (if t = ''note'' \<and> mentions_gear (stripped_text note)
             then notes @ [stripped_text note] else notes))"

definition extract_gear_notes :: "elem \<Rightarrow> error + string list" where
  "extract_gear_notes ts = notes_loop (iter ts) []"

text \<open>
  \<open>extract_designator_and_name\<close>: the direct children of the time slice, the first
  non-empty designator and name, stopping once both are found.
\<close>

fun designator_name_loop ::
  "elem list \<Rightarrow> string option \<Rightarrow> string option \<Rightarrow> error + (string option \<times> string option)"
where
  "designator_name_loop [] code name = Inr (code, name)"
| "designator_name_loop (child # rest) code name =
     (case localname (tag child) of
        Inl err \<Rightarrow> Inl err
      | Inr t \<Rightarrow>
          (let code' = (if t = ''designator'' \<and> code = None
                        then or_none (stripped_text child) else code);
               name' = (if \<not> (t = ''designator'' \<and> code = None) \<and> t = ''name'' \<and> name = None
                        then or_none (stripped_text child) else name)
           in if \<not> falsy code' \<and> \<not> falsy name' then Inr (code', name')
              else designator_name_loop rest code' name'))"

definition extract_designator_and_name ::
  "elem \<Rightarrow> error + (string option \<times> string option)" where
  "extract_designator_and_name ts = designator_name_loop (children ts) None None"

section \<open>Dictionaries\<close>

text \<open>
  A Python \<open>dict\<close> keeps its keys in insertion order, and assigning to a key that is
  present keeps the key's place.  It is an association list with distinct keys.
\<close>

type_synonym ('k, 'v) dict = "('k \<times> 'v) list"

definition dict_get :: "('k, 'v) dict \<Rightarrow> 'k \<Rightarrow> 'v option" where
  "dict_get d k = map_of d k"

fun dict_set :: "('k, 'v) dict \<Rightarrow> 'k \<Rightarrow> 'v \<Rightarrow> ('k, 'v) dict" where
  "dict_set [] k v = [(k, v)]"
| "dict_set ((k', v') # d) k v = (if k' = k then (k, v) # d else (k', v') # dict_set d k v)"

text \<open>\<open>d.setdefault(k, []).extend(xs)\<close>, and \<open>.append(x)\<close> for a single \<open>x\<close>.\<close>

definition dict_extend :: "('k, 'v list) dict \<Rightarrow> 'k \<Rightarrow> 'v list \<Rightarrow> ('k, 'v list) dict" where
  "dict_extend d k xs =
     dict_set d k ((case dict_get d k of None \<Rightarrow> [] | Some ys \<Rightarrow> ys) @ xs)"

text \<open>\<open>d.keys()\<close>, as a set.\<close>

definition dict_keys :: "('k, 'v) dict \<Rightarrow> 'k set" where
  "dict_keys d = fst ` set d"

section \<open>Cross references\<close>

definition XLINK_HREF :: string where
  "XLINK_HREF = ''{http://www.w3.org/1999/xlink}href''"

definition GML_ID :: string where
  "GML_ID = ''{http://www.opengis.net/gml/3.2}id''"

text \<open>The pattern \<open>@gml:id='([^']+)'\<close>, matched with case.\<close>

definition HREF_RE :: rx where
  "HREF_RE =
     seq [lit ''@gml:id='', Atom (Lit (CHR 0x27)), Grp 1 (Rep (NoneOf [CHR 0x27]) 1 None),
          Atom (Lit (CHR 0x27))]"

text \<open>
  The reference resolution repeated in \<open>index_runways\<close> and \<open>index_gear_notes_across\<close>:
  \<open>href = child.attrib.get(XLINK_HREF, "")\<close>, then \<open>re.search\<close> of the pattern, then
  \<open>m.group(1)\<close> when there is a match.
\<close>

definition href_ref :: "elem \<Rightarrow> string option" where
  "href_ref child =
     (let href = (case map_of (attrib child) XLINK_HREF of None \<Rightarrow> [] | Some h \<Rightarrow> h) in
      case re_search False HREF_RE href of None \<Rightarrow> None | Some m \<Rightarrow> group m 1)"

text \<open>\<open>iterparse\<close> delivers events; each carries the element as it is populated then.\<close>

datatype event = Start | End

section \<open>Gear notes across features\<close>

definition airport_ref_tags :: "string list" where
  "airport_ref_tags =
     [''associatedAirportHeliport'', ''airportHeliport'', ''airportLocation'',
      ''clientAirport'']"

text \<open>The first loop of \<open>index_gear_notes_across\<close>: the first reference that resolves.\<close>

fun airport_ref_loop :: "elem list \<Rightarrow> error + string option" where
  "airport_ref_loop [] = Inr None"
| "airport_ref_loop (child # rest) =
     (case localname (tag child) of
        Inl err \<Rightarrow> Inl err
      | Inr ctag \<Rightarrow>
          if ctag \<in> set airport_ref_tags then
            (case href_ref child of None \<Rightarrow> airport_ref_loop rest | Some r \<Rightarrow> Inr (Some r))
          else airport_ref_loop rest)"

definition endswith :: "string \<Rightarrow> string \<Rightarrow> bool" where
  "endswith s suffix \<longleftrightarrow> length suffix \<le> length s \<and> drop (length s - length suffix) s = suffix"

text \<open>The body of the loop of \<open>index_gear_notes_across\<close> for one \<open>end\<close> event.\<close>

definition gear_across_step ::
  "(string, string list) dict \<Rightarrow> elem \<Rightarrow> error + (string, string list) dict" where
  "gear_across_step gear_notes elem =
     (case localname (tag elem) of
        Inl err \<Rightarrow> Inl err
      | Inr t \<Rightarrow>
          if \<not> endswith t ''TimeSlice'' then Inr gear_notes
          else
            (case airport_ref_loop (iter elem) of
               Inl err \<Rightarrow> Inl err
             | Inr airport_ref \<Rightarrow>
                 (case airport_ref of
                    None \<Rightarrow> Inr gear_notes
                  | Some r \<Rightarrow>
                      if r = [] then Inr gear_notes
                      else
                        (case notes_loop (iter elem) [] of
                           Inl err \<Rightarrow> Inl err
                         | Inr found \<Rightarrow>
                             if found \<noteq> [] then Inr (dict_extend gear_notes r found)
                             else Inr gear_notes))))"

fun gear_across_run ::
  "(string, string list) dict \<Rightarrow> elem list \<Rightarrow> error + (string, string list) dict" where
  "gear_across_run gear_notes [] = Inr gear_notes"
| "gear_across_run gear_notes (elem # rest) =
     (case gear_across_step gear_notes elem of
        Inl err \<Rightarrow> Inl err
      | Inr gear_notes' \<Rightarrow> gear_across_run gear_notes' rest)"

text \<open>\<open>index_gear_notes_across\<close> on the elements of the \<open>end\<close> events, in order.\<close>

definition index_gear_notes_across :: "elem list \<Rightarrow> error + (string, string list) dict" where
  "index_gear_notes_across elems = gear_across_run [] elems"

section \<open>The airport indexer\<close>

text \<open>
  \<open>float(x)\<close> is a parameter \<open>pyfloat\<close> of the indexer: \<open>None\<close> when the conversion
  raises, the floating-point value otherwise.  The type \<open>'f\<close> of the values is left open.
\<close>

text \<open>\<open>txt.split()\<close>: the maximal runs of characters that are not white space.\<close>

fun split_ws :: "string \<Rightarrow> string list" where
  "split_ws [] = []"
| "split_ws (c # cs) =
     (if is_space c then split_ws cs
      else
        (case split_ws cs of
           [] \<Rightarrow> [[c]]
         | w # ws \<Rightarrow>
             (case cs of
                [] \<Rightarrow> [[c]]
              | d # _ \<Rightarrow> if is_space d then [c] # w # ws else (c # w) # ws)))"

record 'f fields =
  icao :: "string option"
  lat :: "'f option"
  lon :: "'f option"
  city :: "string option"
  state_code :: "string option"
  state_name :: "string option"

definition no_fields :: "'f fields" where
  "no_fields =
     \<lparr>icao = None, lat = None, lon = None, city = None, state_code = None, state_name = None\<rparr>"

text \<open>
  One \<open>pos\<close> text: the list comprehension raises as soon as one part fails to convert,
  and the handler leaves both coordinates as they were; so does a text of fewer than
  two parts.  Otherwise \<open>lon, lat = parts[0], parts[1]\<close>.
\<close>

definition read_pos :: "(string \<Rightarrow> 'f option) \<Rightarrow> string \<Rightarrow> 'f fields \<Rightarrow> 'f fields" where
  "read_pos pyfloat txt fs =
     (case those (map pyfloat (filter (\<lambda>x. x \<noteq> []) (split_ws txt))) of
        None \<Rightarrow> fs
      | Some parts \<Rightarrow>
          (case parts of
             x # y # _ \<Rightarrow> fs\<lparr>lat := Some y, lon := Some x\<rparr>
           | _ \<Rightarrow> fs))"

fun arp_loop :: "(string \<Rightarrow> 'f option) \<Rightarrow> elem list \<Rightarrow> 'f fields \<Rightarrow> error + 'f fields" where
  "arp_loop pyfloat [] fs = Inr fs"
| "arp_loop pyfloat (sub # rest) fs =
     (case localname (tag sub) of
        Inl err \<Rightarrow> Inl err
      | Inr t \<Rightarrow>
          arp_loop pyfloat rest
            (if t = ''pos'' then read_pos pyfloat (stripped_text sub) fs else fs))"

text \<open>\<open>servedCity\<close>: the first non-empty \<open>name\<close> or \<open>cityName\<close> below it, then \<open>break\<close>.\<close>

fun served_city_loop :: "elem list \<Rightarrow> 'f fields \<Rightarrow> error + 'f fields" where
  "served_city_loop [] fs = Inr fs"
| "served_city_loop (sub # rest) fs =
     (case localname (tag sub) of
        Inl err \<Rightarrow> Inl err
      | Inr t \<Rightarrow>
          if t \<in> set [''name'', ''cityName''] \<and> stripped_text sub \<noteq> []
          then Inr (fs\<lparr>city := Some (stripped_text sub)\<rparr>)
          else served_city_loop rest fs)"

text \<open>The two state fields, read the same way in the extension and in the organisation.\<close>

definition read_state :: "string \<Rightarrow> elem \<Rightarrow> 'f fields \<Rightarrow> 'f fields" where
  "read_state stag sub fs =
     (if stag = ''countyStatePostOfficeCode'' \<and> falsy (state_code fs) then
        (if stripped_text sub \<noteq> [] then fs\<lparr>state_code := Some (stripped_text sub)\<rparr> else fs)
      else if stag = ''stateName'' \<and> falsy (state_name fs) then
        (if stripped_text sub \<noteq> [] then fs\<lparr>state_name := Some (stripped_text sub)\<rparr> else fs)
      else fs)"

fun extension_loop :: "elem list \<Rightarrow> 'f fields \<Rightarrow> error + 'f fields" where
  "extension_loop [] fs = Inr fs"
| "extension_loop (sub # rest) fs =
     (case localname (tag sub) of
        Inl err \<Rightarrow> Inl err
      | Inr stag \<Rightarrow> extension_loop rest (read_state stag sub fs))"

fun address_loop :: "elem list \<Rightarrow> 'f fields \<Rightarrow> error + 'f fields" where
  "address_loop [] fs = Inr fs"
| "address_loop (addr_part # rest) fs =
     (case localname (tag addr_part) of
        Inl err \<Rightarrow> Inl err
      | Inr atag \<Rightarrow>
          address_loop rest
            (if atag = ''city'' \<and> falsy (city fs) then
               (if stripped_text addr_part \<noteq> []
                then fs\<lparr>city := Some (stripped_text addr_part)\<rparr> else fs)
             else if atag \<in> set [''administrativeArea'', ''stateProvince'']
                     \<and> falsy (state_code fs) then
               (if stripped_text addr_part \<noteq> []
                then fs\<lparr>state_code := Some (stripped_text addr_part)\<rparr> else fs)
             else fs))"

fun organisation_loop :: "elem list \<Rightarrow> 'f fields \<Rightarrow> error + 'f fields" where
  "organisation_loop [] fs = Inr fs"
| "organisation_loop (sub # rest) fs =
     (case localname (tag sub) of
        Inl err \<Rightarrow> Inl err
      | Inr stag \<Rightarrow>
          if stag = ''address'' then
            (case address_loop (iter sub) fs of
               Inl err \<Rightarrow> Inl err
             | Inr fs' \<Rightarrow> organisation_loop rest fs')
          else organisation_loop rest (read_state stag sub fs))"

definition organisation_tags :: "string list" where
  "organisation_tags =
     [''AirportHeliportResponsibilityOrganisation'', ''responsibleOrganisation'', ''contact'']"

text \<open>One direct child of the time slice (one round of the loop of lines 243 to 301).\<close>

definition airport_child ::
  "(string \<Rightarrow> 'f option) \<Rightarrow> elem \<Rightarrow> 'f fields \<Rightarrow> error + 'f fields" where
  "airport_child pyfloat child fs =
     (case localname (tag child) of
        Inl err \<Rightarrow> Inl err
      | Inr t \<Rightarrow>
          if t = ''locationIndicatorICAO'' then Inr (fs\<lparr>icao := or_none (stripped_text child)\<rparr>)
          else if t = ''ARP'' then arp_loop pyfloat (iter child) fs
          else if t = ''servedCity'' \<and> falsy (city fs) then served_city_loop (iter child) fs
          else if t = ''extension'' then extension_loop (iter child) fs
          else if t \<in> set organisation_tags then organisation_loop (iter child) fs
          else Inr fs)"

fun airport_children ::
  "(string \<Rightarrow> 'f option) \<Rightarrow> elem list \<Rightarrow> 'f fields \<Rightarrow> error + 'f fields" where
  "airport_children pyfloat [] fs = Inr fs"
| "airport_children pyfloat (child # rest) fs =
     (case airport_child pyfloat child fs of
        Inl err \<Rightarrow> Inl err
      | Inr fs' \<Rightarrow> airport_children pyfloat rest fs')"

record 'f airport =
  a_code :: "string option"
  a_name :: "string option"
  a_icao :: "string option"
  a_lat :: "'f option"
  a_lon :: "'f option"
  a_city :: "string option"
  a_state_code :: "string option"
  a_state :: "string option"

record 'f airports_state =
  airports :: "(string, 'f airport) dict"
  gear_notes :: "(string, string list) dict"
  cur_airport_id :: "string option"

text \<open>\<open>x or None\<close> for an optional string.\<close>

definition opt_or_none :: "string option \<Rightarrow> string option" where
  "opt_or_none x = (if falsy x then None else x)"

text \<open>The record stored at line 307.\<close>

definition airport_of ::
  "string option \<Rightarrow> string option \<Rightarrow> 'f fields \<Rightarrow> 'f airport" where
  "airport_of code name fs =
     \<lparr>a_code = code, a_name = name, a_icao = icao fs, a_lat = lat fs, a_lon = lon fs,
      a_city = opt_or_none (city fs), a_state_code = opt_or_none (state_code fs),
      a_state = opt_or_none (state_name fs)\<rparr>"

text \<open>The branch of \<open>index_airports\<close> for the end of an \<open>AirportHeliportTimeSlice\<close>.\<close>

definition airport_timeslice ::
  "(string \<Rightarrow> 'f option) \<Rightarrow> 'f airports_state \<Rightarrow> elem \<Rightarrow> error + 'f airports_state" where
  "airport_timeslice pyfloat st elem =
     (case extract_designator_and_name elem of
        Inl err \<Rightarrow> Inl err
      | Inr (code, name) \<Rightarrow>
          (case airport_children pyfloat (children elem) no_fields of
             Inl err \<Rightarrow> Inl err
           | Inr fs \<Rightarrow>
               (case cur_airport_id st of
                  None \<Rightarrow> Inr st
                | Some aid \<Rightarrow>
                    if aid = [] then Inr st
                    else
                      (case extract_gear_notes elem of
                         Inl err \<Rightarrow> Inl err
                       | Inr notes \<Rightarrow>
                           Inr (st\<lparr>airports := dict_set (airports st) aid (airport_of code name fs),
                                   gear_notes :=
                                     (if notes \<noteq> [] then dict_set (gear_notes st) aid notes
                                      else gear_notes st)\<rparr>)))))"

text \<open>One event of the loop of \<open>index_airports\<close>.\<close>

definition airports_step ::
  "(string \<Rightarrow> 'f option) \<Rightarrow> 'f airports_state \<Rightarrow> event \<times> elem \<Rightarrow> error + 'f airports_state"
where
  "airports_step pyfloat st ev =
     (case localname (tag (snd ev)) of
        Inl err \<Rightarrow> Inl err
      | Inr t \<Rightarrow>
          if fst ev = Start \<and> t = ''AirportHeliport''
          then Inr (st\<lparr>cur_airport_id := map_of (attrib (snd ev)) GML_ID\<rparr>)
          else if fst ev = End \<and> t = ''AirportHeliportTimeSlice''
          then airport_timeslice pyfloat st (snd ev)
          else if fst ev = End \<and> t = ''AirportHeliport''
          then Inr (st\<lparr>cur_airport_id := None\<rparr>)
          else Inr st)"

fun airports_run ::
  "(string \<Rightarrow> 'f option) \<Rightarrow> 'f airports_state \<Rightarrow> (event \<times> elem) list
    \<Rightarrow> error + 'f airports_state" where
  "airports_run pyfloat st [] = Inr st"
| "airports_run pyfloat st (ev # rest) =
     (case airports_step pyfloat st ev of
        Inl err \<Rightarrow> Inl err
      | Inr st' \<Rightarrow> airports_run pyfloat st' rest)"

definition airports_init :: "'f airports_state" where
  "airports_init = \<lparr>airports = [], gear_notes = [], cur_airport_id = None\<rparr>"

definition index_airports ::
  "(string \<Rightarrow> 'f option) \<Rightarrow> (event \<times> elem) list
    \<Rightarrow> error + ((string, 'f airport) dict \<times> (string, string list) dict)" where
  "index_airports pyfloat events =
     (case airports_run pyfloat airports_init events of
        Inl err \<Rightarrow> Inl err
      | Inr st \<Rightarrow> Inr (airports st, gear_notes st))"

section \<open>The runway indexer\<close>

text \<open>
  \<open>int(float(s))\<close> is a parameter \<open>to_int\<close> of the indexer: \<open>None\<close> when the
  conversion raises, the integer otherwise.
\<close>

text \<open>\<open>sub in s\<close> for strings.\<close>

fun contains :: "string \<Rightarrow> string \<Rightarrow> bool" where
  "contains sub [] \<longleftrightarrow> sub = []"
| "contains sub (c # cs) \<longleftrightarrow> take (length sub) (c # cs) = sub \<or> contains sub cs"

text \<open>
  The identifier patterns, matched with case at the start of the identifier:
  \<open>RWY_BASE_END_(.+)\<close>, \<open>RWY_RECIPROCAL_END_(.+)\<close>, \<open>RWY_(.+)\<close> and
  \<open>RWY_DIRECTION_(BASE_END|RECIPROCAL_END)_(.+)\<close>.
\<close>

definition rest_of_line :: rx where
  "rest_of_line = Rep Dot 1 None"

definition BASE_END_RE :: rx where
  "BASE_END_RE = seq [lit ''RWY_BASE_END_'', Grp 1 rest_of_line]"

definition RECIPROCAL_END_RE :: rx where
  "RECIPROCAL_END_RE = seq [lit ''RWY_RECIPROCAL_END_'', Grp 1 rest_of_line]"

definition PAIR_RE :: rx where
  "PAIR_RE = seq [lit ''RWY_'', Grp 1 rest_of_line]"

definition DIRECTION_RE :: rx where
  "DIRECTION_RE =
     seq [lit ''RWY_DIRECTION_'', Grp 1 (alts [lit ''BASE_END'', lit ''RECIPROCAL_END'']),
          lit ''_'', Grp 2 rest_of_line]"

text \<open>\<open>group_suffix = m.group(1) if m else cur_runway_id\<close>\<close>

definition group_suffix_of :: "rx \<Rightarrow> string \<Rightarrow> string" where
  "group_suffix_of r rid =
     (case re_match False r rid of None \<Rightarrow> rid | Some m \<Rightarrow> group1 m)"

record rwy_fields =
  designator :: "string option"
  airport_ref :: "string option"
  length_ft :: "int option"
  width_ft :: "int option"

definition no_rwy_fields :: rwy_fields where
  "no_rwy_fields = \<lparr>designator = None, airport_ref = None, length_ft = None, width_ft = None\<rparr>"

text \<open>The loop over the direct children of a \<open>RunwayTimeSlice\<close> (lines 351 to 369).\<close>

fun runway_children ::
  "(string \<Rightarrow> int option) \<Rightarrow> elem list \<Rightarrow> rwy_fields \<Rightarrow> error + rwy_fields" where
  "runway_children to_int [] fs = Inr fs"
| "runway_children to_int (child # rest) fs =
     (case localname (tag child) of
        Inl err \<Rightarrow> Inl err
      | Inr ctag \<Rightarrow>
          runway_children to_int rest
            (if ctag = ''designator'' then fs\<lparr>designator := Some (stripped_text child)\<rparr>
             else if ctag = ''associatedAirportHeliport'' then
               (case href_ref child of None \<Rightarrow> fs | Some r \<Rightarrow> fs\<lparr>airport_ref := Some r\<rparr>)
             else if ctag = ''lengthStrip'' then fs\<lparr>length_ft := to_int (stripped_text child)\<rparr>
             else if ctag = ''widthStrip'' then fs\<lparr>width_ft := to_int (stripped_text child)\<rparr>
             else fs))"

record rwy_state =
  pair_dims :: "(string \<times> string, int option \<times> int option) dict"
  end_info :: "(string, string \<times> string \<times> string) dict"
  end_disp :: "(string \<times> string, int) dict"
  cur_runway_id :: "string option"
  cur_rwy_dir_id :: "string option"

text \<open>\<open>designator or ""\<close>\<close>

definition or_empty :: "string option \<Rightarrow> string" where
  "or_empty x = (case x of None \<Rightarrow> [] | Some s \<Rightarrow> s)"

text \<open>
  Lines 370 to 385: what a runway time slice records, once its children are read, for
  the runway \<open>rid\<close> and the airport \<open>aref\<close>.
\<close>

definition record_runway :: "rwy_state \<Rightarrow> string \<Rightarrow> string \<Rightarrow> rwy_fields \<Rightarrow> rwy_state" where
  "record_runway st rid aref fs =
     (if contains ''_BASE_END_'' rid then
        st\<lparr>end_info := dict_set (end_info st) rid
              (aref, or_empty (designator fs), group_suffix_of BASE_END_RE rid)\<rparr>
      else if contains ''_RECIPROCAL_END_'' rid then
        st\<lparr>end_info := dict_set (end_info st) rid
              (aref, or_empty (designator fs), group_suffix_of RECIPROCAL_END_RE rid)\<rparr>
      else
        st\<lparr>pair_dims := dict_set (pair_dims st) (aref, group_suffix_of PAIR_RE rid)
              (length_ft fs, width_ft fs)\<rparr>)"

definition runway_timeslice ::
  "(string \<Rightarrow> int option) \<Rightarrow> rwy_state \<Rightarrow> elem \<Rightarrow> error + rwy_state" where
  "runway_timeslice to_int st elem =
     (case runway_children to_int (children elem) no_rwy_fields of
        Inl err \<Rightarrow> Inl err
      | Inr fs \<Rightarrow>
          if \<not> falsy (cur_runway_id st) \<and> \<not> falsy (airport_ref fs)
          then Inr (record_runway st (or_empty (cur_runway_id st)) (or_empty (airport_ref fs)) fs)
          else Inr st)"

text \<open>
  The loop over the descendants of a \<open>RunwayDirectionTimeSlice\<close>: the last
  \<open>displacedThresholdLength\<close> whose text is not empty and converts.
\<close>

fun displaced_loop ::
  "(string \<Rightarrow> int option) \<Rightarrow> elem list \<Rightarrow> int option \<Rightarrow> error + int option" where
  "displaced_loop to_int [] disp_ft = Inr disp_ft"
| "displaced_loop to_int (child # rest) disp_ft =
     (case localname (tag child) of
        Inl err \<Rightarrow> Inl err
      | Inr t \<Rightarrow>
          displaced_loop to_int rest
            (if t = ''displacedThresholdLength'' \<and> stripped_text child \<noteq> [] then
               (case to_int (stripped_text child) of None \<Rightarrow> disp_ft | Some d \<Rightarrow> Some d)
             else disp_ft))"

text \<open>Lines 403 to 412: the correction recorded for the direction \<open>did\<close>.\<close>

definition record_direction :: "rwy_state \<Rightarrow> string \<Rightarrow> int \<Rightarrow> rwy_state" where
  "record_direction st did disp_ft =
     (case re_match False DIRECTION_RE did of
        None \<Rightarrow> st
      | Some m \<Rightarrow>
          (let kind = or_empty (group m 1);
               suffix = or_empty (group m 2);
               end_prefix =
                 (if kind = ''BASE_END'' then ''RWY_BASE_END_'' else ''RWY_RECIPROCAL_END_'');
               end_id = end_prefix @ suffix
           in case dict_get (end_info st) end_id of
                None \<Rightarrow> st
              | Some (aref, des, gs) \<Rightarrow>
                  st\<lparr>end_disp := dict_set (end_disp st) (aref, des) disp_ft\<rparr>))"

definition direction_timeslice ::
  "(string \<Rightarrow> int option) \<Rightarrow> rwy_state \<Rightarrow> elem \<Rightarrow> error + rwy_state" where
  "direction_timeslice to_int st elem =
     (case displaced_loop to_int (iter elem) None of
        Inl err \<Rightarrow> Inl err
      | Inr disp_ft \<Rightarrow>
          (case disp_ft of
             None \<Rightarrow> Inr st
           | Some d \<Rightarrow>
               if \<not> falsy (cur_rwy_dir_id st)
               then Inr (record_direction st (or_empty (cur_rwy_dir_id st)) d)
               else Inr st))"

text \<open>One event of the loop of \<open>index_runways\<close>.\<close>

definition runways_step ::
  "(string \<Rightarrow> int option) \<Rightarrow> rwy_state \<Rightarrow> event \<times> elem \<Rightarrow> error + rwy_state" where
  "runways_step to_int st ev =
     (case localname (tag (snd ev)) of
        Inl err \<Rightarrow> Inl err
      | Inr t \<Rightarrow>
          if fst ev = Start \<and> t = ''Runway''
          then Inr (st\<lparr>cur_runway_id := map_of (attrib (snd ev)) GML_ID\<rparr>)
          else if fst ev = End \<and> t = ''RunwayTimeSlice''
          then runway_timeslice to_int st (snd ev)
          else if fst ev = End \<and> t = ''Runway''
          then Inr (st\<lparr>cur_runway_id := None\<rparr>)
          else if fst ev = Start \<and> t = ''RunwayDirection''
          then Inr (st\<lparr>cur_rwy_dir_id := map_of (attrib (snd ev)) GML_ID\<rparr>)
          else if fst ev = End \<and> t = ''RunwayDirectionTimeSlice''
          then direction_timeslice to_int st (snd ev)
          else if fst ev = End \<and> t = ''RunwayDirection''
          then Inr (st\<lparr>cur_rwy_dir_id := None\<rparr>)
          else Inr st)"

fun runways_run ::
  "(string \<Rightarrow> int option) \<Rightarrow> rwy_state \<Rightarrow> (event \<times> elem) list \<Rightarrow> error + rwy_state" where
  "runways_run to_int st [] = Inr st"
| "runways_run to_int st (ev # rest) =
     (case runways_step to_int st ev of
        Inl err \<Rightarrow> Inl err
      | Inr st' \<Rightarrow> runways_run to_int st' rest)"

definition runways_init :: rwy_state where
  "runways_init =
     \<lparr>pair_dims = [], end_info = [], end_disp = [], cur_runway_id = None,
      cur_rwy_dir_id = None\<rparr>"

record runway_end =
  r_designator :: string
  r_length_ft :: "int option"
  r_width_ft :: "int option"

text \<open>
  The final assembly.  Lines 422 to 432: the entry of one recorded end, from the pair's
  dimensions and the end's displaced threshold.
\<close>

definition end_entry ::
  "(string \<times> string, int option \<times> int option) dict \<Rightarrow> (string \<times> string, int) dict
    \<Rightarrow> string \<times> string \<times> string \<Rightarrow> runway_end" where
  "end_entry pairs disps info =
     (case info of (aref, end_designator, group_suffix) \<Rightarrow>
        (case (case dict_get pairs (aref, group_suffix) of
                 None \<Rightarrow> (None, None) | Some dims \<Rightarrow> dims) of
           (len, width) \<Rightarrow>
             (let disp = (case dict_get disps (aref, end_designator) of
                            None \<Rightarrow> 0 | Some d \<Rightarrow> d);
                  use_len = (case len of None \<Rightarrow> None | Some l \<Rightarrow> Some (max 0 (l - disp)))
              in \<lparr>r_designator = end_designator, r_length_ft = use_len,
                  r_width_ft = width\<rparr>)))"

text \<open>The loop of line 421 over the items of \<open>end_info\<close>.\<close>

fun ends_loop ::
  "(string \<times> string, int option \<times> int option) dict \<Rightarrow> (string \<times> string, int) dict
    \<Rightarrow> (string, string \<times> string \<times> string) dict \<Rightarrow> (string, runway_end list) dict
    \<Rightarrow> (string, runway_end list) dict" where
  "ends_loop pairs disps [] by_airport = by_airport"
| "ends_loop pairs disps ((end_id, info) # rest) by_airport =
     ends_loop pairs disps rest
       (dict_extend by_airport (fst info) [end_entry pairs disps info])"

text \<open>The fallback loop of line 435 over the items of \<open>pair_dims\<close>.\<close>

fun pairs_loop ::
  "(string \<times> string, int option \<times> int option) dict \<Rightarrow> (string, runway_end list) dict
    \<Rightarrow> (string, runway_end list) dict" where
  "pairs_loop [] by_airport = by_airport"
| "pairs_loop (((aref, group_suffix), (len, width)) # rest) by_airport =
     pairs_loop rest
       (if dict_get by_airport aref = None
        then dict_set by_airport aref
               [\<lparr>r_designator = group_suffix, r_length_ft = len, r_width_ft = width\<rparr>]
        else by_airport)"

definition assemble :: "rwy_state \<Rightarrow> (string, runway_end list) dict" where
  "assemble st =
     pairs_loop (pair_dims st) (ends_loop (pair_dims st) (end_disp st) (end_info st) [])"

definition index_runways ::
  "(string \<Rightarrow> int option) \<Rightarrow> (event \<times> elem) list \<Rightarrow> error + (string, runway_end list) dict"
where
  "index_runways to_int events =
     (case runways_run to_int runways_init events of
        Inl err \<Rightarrow> Inl err
      | Inr st \<Rightarrow> Inr (assemble st))"

section \<open>Documents and their events\<close>

text \<open>
  \<open>ET.iterparse\<close> with \<open>start\<close> and \<open>end\<close> events, for a consumer that calls
  \<open>elem.clear()\<close> at the \<open>end\<close> event of every element whose tag satisfies \<open>clr\<close>:
  a \<open>start\<close> event carries the tag and the attributes, an \<open>end\<close> event the complete
  element, in which the descendants cleared before are left with their tag only.
\<close>

fun seen :: "(string \<Rightarrow> bool) \<Rightarrow> elem \<Rightarrow> elem" where
  "seen clr (Elem t a x cs) =
     Elem t a x (map (\<lambda>c. if clr (tag c) then Elem (tag c) [] None [] else seen clr c) cs)"

fun iterparse :: "(string \<Rightarrow> bool) \<Rightarrow> elem \<Rightarrow> (event \<times> elem) list" where
  "iterparse clr (Elem t a x cs) =
     (Start, Elem t a None []) # concat (map (iterparse clr) cs)
     @ [(End, seen clr (Elem t a x cs))]"

text \<open>The tags at whose \<open>end\<close> event \<open>index_airports\<close> and \<open>index_runways\<close> clear.\<close>

definition airports_clear :: "string \<Rightarrow> bool" where
  "airports_clear t \<longleftrightarrow>
     localname t \<in> set [Inr ''AirportHeliportTimeSlice'', Inr ''AirportHeliport'']"

definition runways_clear :: "string \<Rightarrow> bool" where
  "runways_clear t \<longleftrightarrow>
     localname t \<in> set [Inr ''RunwayTimeSlice'', Inr ''Runway'',
                         Inr ''RunwayDirectionTimeSlice'', Inr ''RunwayDirection'']"

text \<open>Elements in the AIXM namespace, as the unit tests write them.\<close>

definition aixm :: "string \<Rightarrow> string" where
  "aixm n = ''{http://www.aixm.aero/schema/5.1}'' @ n"

definition leaf :: "string \<Rightarrow> string \<Rightarrow> elem" where
  "leaf n t = Elem (aixm n) [] (Some t) []"

definition node :: "string \<Rightarrow> elem list \<Rightarrow> elem" where
  "node n cs = Elem (aixm n) [] None cs"

definition feature :: "string \<Rightarrow> string \<Rightarrow> elem list \<Rightarrow> elem" where
  "feature n gml_id cs = Elem (aixm n) [(GML_ID, gml_id)] None cs"

definition airport_href :: "string \<Rightarrow> elem" where
  "airport_href aid =
     Elem (aixm ''associatedAirportHeliport'')
       [(XLINK_HREF, ''#/aixm:AirportHeliport[@gml:id='' @ [CHR 0x27] @ aid @ [CHR 0x27] @ '']'')]
       None []"

definition annotation :: "string \<Rightarrow> elem" where
  "annotation t =
     node ''annotation''
       [node ''Note'' [node ''translatedNote'' [node ''LinguisticNote'' [leaf ''note'' t]]]]"

text \<open>
  A conversion that reads non-empty strings of decimal digits and fails on anything
  else.  The examples use it in the place of \<open>float\<close> and of \<open>int(float(\<dots>))\<close>, with
  which it agrees on such strings of up to 15 digits.
\<close>

definition plain_number :: "string \<Rightarrow> int option" where
  "plain_number s = (if s \<noteq> [] \<and> list_all is_digit s then Some (int_of_digits s) else None)"

text \<open>
  The document of the runway unit test: a pair of length 8000 and width 150, its base
  and reciprocal ends under the airport \<open>AH_1\<close>, and a displaced threshold of 500 on the
  base end only.
\<close>

definition runway_example :: elem where
  "runway_example =
     Elem ''root'' [] None
       [feature ''Runway'' ''RWY_ABC123''
          [node ''timeSlice''
             [node ''RunwayTimeSlice''
                [leaf ''designator'' ''18/36'', airport_href ''AH_1'',
                 leaf ''lengthStrip'' ''8000'', leaf ''widthStrip'' ''150'']]],
        feature ''Runway'' ''RWY_BASE_END_ABC123''
          [node ''timeSlice''
             [node ''RunwayTimeSlice'' [leaf ''designator'' ''18'', airport_href ''AH_1'']]],
        feature ''Runway'' ''RWY_RECIPROCAL_END_ABC123''
          [node ''timeSlice''
             [node ''RunwayTimeSlice'' [leaf ''designator'' ''36'', airport_href ''AH_1'']]],
        feature ''RunwayDirection'' ''RWY_DIRECTION_BASE_END_ABC123''
          [node ''timeSlice''
             [node ''RunwayDirectionTimeSlice'' [leaf ''displacedThresholdLength'' ''500'']]]]"

text \<open>The three maps that the loop of \<open>index_runways\<close> builds from that document.\<close>

definition runway_example_maps :: rwy_state where
  "runway_example_maps =
     \<lparr>pair_dims = [((''AH_1'', ''ABC123''), (Some 8000, Some 150))],
      end_info = [(''RWY_BASE_END_ABC123'', (''AH_1'', ''18'', ''ABC123'')),
                  (''RWY_RECIPROCAL_END_ABC123'', (''AH_1'', ''36'', ''ABC123''))],
      end_disp = [((''AH_1'', ''18''), 500)],
      cur_runway_id = None, cur_rwy_dir_id = None\<rparr>"

text \<open>
  A runway time slice whose airport reference does not have the form that the pattern
  expects, carrying a gear note.
\<close>

definition unresolved_ref :: elem where
  "unresolved_ref =
     Elem (aixm ''associatedAirportHeliport'') [(XLINK_HREF, ''urn:uuid:AH_1'')] None []"

definition unresolved_slice :: elem where
  "unresolved_slice =
     node ''RunwayTimeSlice''
       [leaf ''designator'' ''18'', unresolved_ref, annotation ''BAK-12 1500 FT FM THR'']"

text \<open>
  A second conversion for the examples, in the place of \<open>float\<close>: a signed decimal
  numeral \<open>-ddd.ddd\<close> is read as the pair of its digits, as an integer, and the number
  of digits after the point (\<open>-120.5\<close> is \<open>(-1205, 1)\<close>); anything else fails.
  \<open>float\<close> rounds the number so written to the nearest double.
\<close>

definition plain_decimal :: "string \<Rightarrow> (int \<times> nat) option" where
  "plain_decimal s =
     (let neg = (case s of [] \<Rightarrow> False | c # _ \<Rightarrow> c = CHR ''-'');
          u = (if neg then tl s else s);
          whole_part = takeWhile is_digit u;
          rest = dropWhile is_digit u;
          frac = (case rest of [] \<Rightarrow> [] | c # f \<Rightarrow> f)
      in if whole_part \<noteq> [] \<and> list_all is_digit frac
            \<and> (rest = [] \<or> (take 1 rest = ''.'' \<and> frac \<noteq> []))
         then Some ((if neg then - 1 else 1) * int_of_digits (whole_part @ frac), length frac)
         else None)"

text \<open>
  The airport of the unit test, and a time slice met when no container is open.
\<close>

definition airport_feature_example :: elem where
  "airport_feature_example =
     feature ''AirportHeliport'' ''AH_1''
       [node ''timeSlice''
          [node ''AirportHeliportTimeSlice''
             [leaf ''designator'' ''TEST'', leaf ''name'' ''Test Field'',
              leaf ''locationIndicatorICAO'' ''KTEST'',
              node ''ARP''
                [node ''ElevatedPoint''
                   [Elem ''{http://www.opengis.net/gml/3.2}pos'' [] (Some ''-120.5 35.2'') []]],
              annotation ''A-GEAR BAK-12, (1200 FT)'']]]"

definition airport_example :: elem where
  "airport_example = Elem ''root'' [] None [airport_feature_example]"

definition stray_slice :: elem where
  "stray_slice =
     node ''AirportHeliportTimeSlice''
       [leaf ''designator'' ''ZZZ'', leaf ''name'' ''Stray Field'',
        annotation ''A-GEAR BAK-14 located centerfield'']"

text \<open>The identifiers of the \<open>AirportHeliport\<close> containers opened in a stream of events.\<close>

fun opened_ids :: "(event \<times> elem) list \<Rightarrow> string set" where
  "opened_ids [] = {}"
| "opened_ids (ev # evs) =
     (if fst ev = Start \<and> localname (tag (snd ev)) = Inr ''AirportHeliport''
      then (case map_of (attrib (snd ev)) GML_ID of None \<Rightarrow> {} | Some k \<Rightarrow> {k})
      else {})
     \<union> opened_ids evs"

text \<open>
  A time slice that carries a state code in an organisation block and another one in
  the agency extension, the block first; and a time slice whose position is not a pair
  of numbers.
\<close>

definition state_slice :: elem where
  "state_slice =
     node ''AirportHeliportTimeSlice''
       [leaf ''designator'' ''TEST'', leaf ''name'' ''Test Field'',
        node ''contact''
          [node ''address'' [leaf ''city'' ''Shelby'', leaf ''administrativeArea'' ''TX'']],
        node ''extension'' [leaf ''countyStatePostOfficeCode'' ''CA'']]"

definition state_example :: elem where
  "state_example = feature ''AirportHeliport'' ''AH_2'' [node ''timeSlice'' [state_slice]]"

definition bad_position_slice :: elem where
  "bad_position_slice =
     node ''AirportHeliportTimeSlice''
       [leaf ''designator'' ''TEST'', leaf ''name'' ''Test Field'',
        node ''ARP''
          [node ''ElevatedPoint''
             [Elem ''{http://www.opengis.net/gml/3.2}pos'' [] (Some ''35.2N 120.5W'') []]],
        leaf ''locationIndicatorICAO'' ''KTEST'']"

text \<open>The fields and the record without the coordinates.\<close>

definition without_position :: "'f fields \<Rightarrow> 'f fields" where
  "without_position fs = fs\<lparr>lat := None, lon := None\<rparr>"

definition without_coordinates :: "'f airport \<Rightarrow> 'f airport" where
  "without_coordinates r = r\<lparr>a_lat := None, a_lon := None\<rparr>"

text \<open>No tag among the elements makes \<open>localname\<close> raise.\<close>

definition well_tagged :: "elem list \<Rightarrow> bool" where
  "well_tagged xs \<longleftrightarrow> list_all (\<lambda>x. localname (tag x) \<noteq> Inl IndexError) xs"

text \<open>
  A position text that gives no coordinates: one of its parts fails to convert, or it has
  fewer than two parts.
\<close>

definition no_position :: "(string \<Rightarrow> 'f option) \<Rightarrow> string \<Rightarrow> bool" where
  "no_position pyfloat txt \<longleftrightarrow>
     (case those (map pyfloat (filter (\<lambda>x. x \<noteq> []) (split_ws txt))) of
        None \<Rightarrow> True
      | Some parts \<Rightarrow> length parts < 2)"

text \<open>Every \<open>pos\<close> below an \<open>ARP\<close> child of the time slice gives no coordinates.\<close>

definition positions_fail :: "(string \<Rightarrow> 'f option) \<Rightarrow> elem \<Rightarrow> bool" where
  "positions_fail pyfloat ts \<longleftrightarrow>
     list_all (\<lambda>c. localname (tag c) = Inr ''ARP'' \<longrightarrow>
                 list_all (\<lambda>p. localname (tag p) = Inr ''pos''
                              \<longrightarrow> no_position pyfloat (stripped_text p)) (iter c))
       (children ts)"

text \<open>
  A state of the airport indexer in which the record stored for the current airport, if
  there is one, has lost its coordinates.
\<close>

definition without_stored_coordinates ::
  "string option \<Rightarrow> 'f airports_state \<Rightarrow> 'f airports_state" where
  "without_stored_coordinates cur st =
     (case cur of
        None \<Rightarrow> st
      | Some aid \<Rightarrow>
          if aid = [] then st
          else (case dict_get (airports st) aid of
                  None \<Rightarrow> st
                | Some r \<Rightarrow>
                    st\<lparr>airports := dict_set (airports st) aid (without_coordinates r)\<rparr>))"

section \<open>Properties of the gear-note parser\<close>

text \<open>
  Claim C1.  For every note, no integer reported in a mention's from-threshold distances
  is reported in the misc distances of the same mention.
\<close>

theorem C1_threshold_excluded_from_misc:
  "\<forall>m \<in> set (parse_gear_from_text note).
     set (distances_from_threshold_ft m) \<inter> set (distances_misc_ft m) = {}"
  by (auto simp: parse_gear_from_text_def Let_def sorted_set_def)

theorem C1_threshold_excluded_from_misc_witness:
  "\<exists>m \<in> set (parse_gear_from_text ''BAK-12 at 1500 FT FM THR (1500) (1200 FT)'').
     distances_from_threshold_ft m = [1500] \<and> distances_misc_ft m = [1200]
     \<and> set (distances_from_threshold_ft m) \<inter> set (distances_misc_ft m) = {}"
proof -
  have e: "parse_gear_from_text ''BAK-12 at 1500 FT FM THR (1500) (1200 FT)'' =
     [\<lparr>gtype = ''BAK-12'', distances_from_threshold_ft = [1500], distances_misc_ft = [1200],
       raw = ''BAK-12 at 1500 FT FM THR (1500) (1200 FT)''\<rparr>]"
    by code_simp
  show ?thesis
    using C1_threshold_excluded_from_misc [of "''BAK-12 at 1500 FT FM THR (1500) (1200 FT)''"]
    by (simp add: e)
qed

text \<open>
  Claim C2.  The note of the first unit test yields exactly two mentions, of types
  \<open>BAK-12\<close> and \<open>BAK14\<close>, each with from-threshold distances \<open>{1500}\<close>, misc distances
  \<open>{1200}\<close> and the note itself as raw text.
\<close>

theorem C2_basic_note:
  "parse_gear_from_text ''RWY 14/32 equipped with BAK-12 and BAK14. 1500 FT FM THR (1200).'' =
     [\<lparr>gtype = ''BAK-12'', distances_from_threshold_ft = [1500], distances_misc_ft = [1200],
       raw = ''RWY 14/32 equipped with BAK-12 and BAK14. 1500 FT FM THR (1200).''\<rparr>,
      \<lparr>gtype = ''BAK14'', distances_from_threshold_ft = [1500], distances_misc_ft = [1200],
       raw = ''RWY 14/32 equipped with BAK-12 and BAK14. 1500 FT FM THR (1200).''\<rparr>]"
  by code_simp

section \<open>Properties of the gear detection\<close>

lemma has_gear_loop_sample:
  "has_gear_loop xs = map_sum id (\<lambda>r. r \<noteq> None) (sample_loop xs)"
  by (induction xs) (auto split: sum.splits)

lemma sample_loop_first:
  "sample_loop xs = Inr (Some t) \<Longrightarrow>
     \<exists>pre n post. xs = pre @ n # post \<and> localname (tag n) = Inr ''note''
       \<and> t = stripped_text n \<and> mentions_gear t
       \<and> (\<forall>x \<in> set pre. \<not> (localname (tag x) = Inr ''note'' \<and> mentions_gear (stripped_text x)))"
proof (induction xs)
  case Nil
  then show ?case by simp
next
  case (Cons x xs)
  show ?case
  proof (cases "localname (tag x) = Inr ''note'' \<and> mentions_gear (stripped_text x)")
    case True
    with Cons.prems have "t = stripped_text x" by auto
    with True have "x # xs = [] @ x # xs \<and> localname (tag x) = Inr ''note''
       \<and> t = stripped_text x \<and> mentions_gear t
       \<and> (\<forall>y \<in> set []. \<not> (localname (tag y) = Inr ''note'' \<and> mentions_gear (stripped_text y)))"
      by simp
    then show ?thesis by blast
  next
    case False
    with Cons.prems have "sample_loop xs = Inr (Some t)"
      by (auto split: sum.splits if_splits)
    from Cons.IH [OF this] obtain pre n post where
      h: "xs = pre @ n # post" "localname (tag n) = Inr ''note''" "t = stripped_text n"
         "mentions_gear t"
         "\<forall>y \<in> set pre. \<not> (localname (tag y) = Inr ''note'' \<and> mentions_gear (stripped_text y))"
      by blast
    with False have "x # xs = (x # pre) @ n # post \<and> localname (tag n) = Inr ''note''
       \<and> t = stripped_text n \<and> mentions_gear t
       \<and> (\<forall>y \<in> set (x # pre). \<not> (localname (tag y) = Inr ''note'' \<and> mentions_gear (stripped_text y)))"
      by simp
    then show ?thesis by blast
  qed
qed

text \<open>
  Claim C10.  On every time slice element \<open>sample_gear_note\<close> returns a note exactly
  when \<open>timeslice_has_gear\<close> returns true, returns nothing exactly when it returns
  false, and raises exactly when it raises; the note returned is the stripped text of
  the first \<open>note\<close> descendant, in document order, that matches one of the two patterns.
\<close>

theorem C10_sample_iff_has_gear:
  "((\<exists>t. sample_gear_note ts = Inr (Some t)) \<longleftrightarrow> timeslice_has_gear ts = Inr True)
   \<and> (sample_gear_note ts = Inr None \<longleftrightarrow> timeslice_has_gear ts = Inr False)
   \<and> (\<forall>err. sample_gear_note ts = Inl err \<longleftrightarrow> timeslice_has_gear ts = Inl err)
   \<and> (\<forall>t. sample_gear_note ts = Inr (Some t) \<longrightarrow>
        (\<exists>pre n post. iter ts = pre @ n # post \<and> localname (tag n) = Inr ''note''
           \<and> t = stripped_text n \<and> mentions_gear t
           \<and> (\<forall>x \<in> set pre. \<not> (localname (tag x) = Inr ''note''
                                      \<and> mentions_gear (stripped_text x)))))"
proof -
  have a: "timeslice_has_gear ts = map_sum id (\<lambda>r. r \<noteq> None) (sample_gear_note ts)"
    by (simp add: timeslice_has_gear_def sample_gear_note_def has_gear_loop_sample)
  have b: "\<forall>t. sample_gear_note ts = Inr (Some t) \<longrightarrow>
        (\<exists>pre n post. iter ts = pre @ n # post \<and> localname (tag n) = Inr ''note''
           \<and> t = stripped_text n \<and> mentions_gear t
           \<and> (\<forall>x \<in> set pre. \<not> (localname (tag x) = Inr ''note''
                                      \<and> mentions_gear (stripped_text x))))"
    using sample_loop_first by (simp add: sample_gear_note_def)
  show ?thesis
    unfolding a using b by (cases "sample_gear_note ts") auto
qed

theorem C10_sample_iff_has_gear_witness:
  "sample_gear_note
     (node ''AirportHeliportTimeSlice''
        [leaf ''designator'' ''TEST'', leaf ''name'' ''Test Airfield'',
         annotation ''A-GEAR BAK-14 located centerfield''])
     = Inr (Some ''A-GEAR BAK-14 located centerfield'')
   \<and> timeslice_has_gear
     (node ''AirportHeliportTimeSlice''
        [leaf ''designator'' ''TEST'', leaf ''name'' ''Test Airfield'',
         annotation ''A-GEAR BAK-14 located centerfield''])
     = Inr True"
proof -
  have s: "sample_gear_note
     (node ''AirportHeliportTimeSlice''
        [leaf ''designator'' ''TEST'', leaf ''name'' ''Test Airfield'',
         annotation ''A-GEAR BAK-14 located centerfield''])
     = Inr (Some ''A-GEAR BAK-14 located centerfield'')"
    by code_simp
  show ?thesis
    using s C10_sample_iff_has_gear
      [of "node ''AirportHeliportTimeSlice''
        [leaf ''designator'' ''TEST'', leaf ''name'' ''Test Airfield'',
         annotation ''A-GEAR BAK-14 located centerfield'']"]
    by blast
qed

section \<open>Properties of the runway indexer\<close>

lemma not_error: "x \<noteq> Inl IndexError \<Longrightarrow> \<exists>t. x = Inr t"
proof (cases x)
  case (Inl err)
  assume "x \<noteq> Inl IndexError"
  with Inl show ?thesis by (cases err) simp
next
  case (Inr t)
  then show ?thesis by simp
qed

lemma dict_get_set: "dict_get (dict_set d k v) k' = (if k' = k then Some v else dict_get d k')"
  by (induction d) (auto simp: dict_get_def)

lemma dict_get_extend:
  "dict_get (dict_extend d k xs) k' =
     (if k' = k then Some ((case dict_get d k of None \<Rightarrow> [] | Some ys \<Rightarrow> ys) @ xs)
      else dict_get d k')"
  by (simp add: dict_extend_def dict_get_set)

lemma ends_loop_keeps:
  "dict_get acc k = Some es \<Longrightarrow>
     \<exists>es'. dict_get (ends_loop P D items acc) k = Some es' \<and> set es \<subseteq> set es'"
proof (induction items arbitrary: acc es)
  case Nil
  then show ?case by simp
next
  case (Cons item items)
  obtain eid info where item: "item = (eid, info)" by (cases item)
  let ?acc = "dict_extend acc (fst info) [end_entry P D info]"
  have "\<exists>es1. dict_get ?acc k = Some es1 \<and> set es \<subseteq> set es1"
    using Cons.prems by (cases "k = fst info") (auto simp: dict_get_extend)
  then obtain es1 where e1: "dict_get ?acc k = Some es1" "set es \<subseteq> set es1"
    by blast
  from Cons.IH [OF e1(1)] e1(2) show ?case
    by (auto simp: item)
qed

lemma ends_loop_entry:
  "(eid, info) \<in> set items \<Longrightarrow>
     \<exists>es. dict_get (ends_loop P D items acc) (fst info) = Some es \<and> end_entry P D info \<in> set es"
proof (induction items arbitrary: acc)
  case Nil
  then show ?case by simp
next
  case (Cons item items)
  obtain eid' info' where item: "item = (eid', info')" by (cases item)
  show ?case
  proof (cases "item = (eid, info)")
    case True
    let ?acc = "dict_extend acc (fst info) [end_entry P D info]"
    have "\<exists>es. dict_get ?acc (fst info) = Some es \<and> end_entry P D info \<in> set es"
      by (simp add: dict_get_extend)
    then obtain es where es: "dict_get ?acc (fst info) = Some es" "end_entry P D info \<in> set es"
      by blast
    from ends_loop_keeps [OF es(1), of P D items] es(2) show ?thesis
      using True by auto
  next
    case False
    with Cons.prems have "(eid, info) \<in> set items" by simp
    from Cons.IH [OF this] show ?thesis by (simp add: item)
  qed
qed

lemma pairs_loop_keeps:
  "dict_get acc k = Some es \<Longrightarrow> dict_get (pairs_loop ps acc) k = Some es"
proof (induction ps arbitrary: acc)
  case Nil
  then show ?case by simp
next
  case (Cons p ps)
  obtain a g l w where p: "p = ((a, g), (l, w))" by (cases p) auto
  show ?case
    using Cons.prems by (auto simp: p dict_get_set intro!: Cons.IH)
qed

lemma end_entry_resolved:
  "dict_get P (a, g) = Some (Some L, w) \<Longrightarrow>
   end_entry P D (a, d, g) =
     \<lparr>r_designator = d,
      r_length_ft = Some (max 0 (L - (case dict_get D (a, d) of None \<Rightarrow> 0 | Some x \<Rightarrow> x))),
      r_width_ft = w\<rparr>"
  by (simp add: end_entry_def)

lemma assemble_end:
  assumes "(eid, a, d, g) \<in> set (end_info st)"
    and "dict_get (pair_dims st) (a, g) = Some (Some L, w)"
  shows "\<exists>es. dict_get (assemble st) a = Some es \<and>
     \<lparr>r_designator = d,
      r_length_ft =
        Some (max 0 (L - (case dict_get (end_disp st) (a, d) of None \<Rightarrow> 0 | Some x \<Rightarrow> x))),
      r_width_ft = w\<rparr> \<in> set es"
proof -
  from ends_loop_entry [OF assms(1), of "pair_dims st" "end_disp st" "[]"]
  obtain es where
    es: "dict_get (ends_loop (pair_dims st) (end_disp st) (end_info st) []) a = Some es"
        "end_entry (pair_dims st) (end_disp st) (a, d, g) \<in> set es"
    by auto
  from pairs_loop_keeps [OF es(1)] have "dict_get (assemble st) a = Some es"
    by (simp add: assemble_def)
  with es(2) show ?thesis
    by (auto simp: end_entry_resolved [OF assms(2)])
qed

lemma runway_example_indexed:
  assumes "to_int ''8000'' = Some 8000" "to_int ''150'' = Some 150" "to_int ''500'' = Some 500"
  shows "index_runways to_int (iterparse runways_clear runway_example) =
     Inr [(''AH_1'',
           [\<lparr>r_designator = ''18'', r_length_ft = Some 7500, r_width_ft = Some 150\<rparr>,
            \<lparr>r_designator = ''36'', r_length_ft = Some 8000, r_width_ft = Some 150\<rparr>])]"
  using assms
  by (simp add: index_runways_def runway_example_def feature_def node_def leaf_def
      airport_href_def aixm_def runways_clear_def localname_def runways_step_def
      runways_init_def runway_timeslice_def direction_timeslice_def record_runway_def
      record_direction_def stripped_text_def strip_def is_space_def href_ref_def
      XLINK_HREF_def GML_ID_def re_search_def re_match_def HREF_RE_def seq_def lit_def
      alts_def group_def group1_def group_suffix_of_def BASE_END_RE_def
      RECIPROCAL_END_RE_def PAIR_RE_def DIRECTION_RE_def rest_of_line_def or_empty_def
      no_rwy_fields_def assemble_def end_entry_def dict_get_def dict_extend_def Let_def)

text \<open>
  Claim C3.  In the final assembly, every recorded runway end whose pair resolves to a
  length \<open>L\<close> and a width \<open>w\<close> is emitted under its airport with the effective length
  \<open>max 0 (L - D)\<close>, where \<open>D\<close> is the displaced threshold recorded for the airport and
  the end designator, or 0 when none is recorded, and with the width \<open>w\<close>.  The document
  of the unit test (pair 8000 by 150, displaced threshold 500 on the base end only) is
  indexed as base end 7500, reciprocal end 8000, both of width 150, for every
  conversion of numbers that reads the three numbers of the document.
\<close>

theorem C3_effective_length:
  "(\<forall>eid a d g L w.
      (eid, a, d, g) \<in> set (end_info st) \<longrightarrow>
      dict_get (pair_dims st) (a, g) = Some (Some L, w) \<longrightarrow>
      (\<exists>es. dict_get (assemble st) a = Some es \<and>
         \<lparr>r_designator = d,
          r_length_ft =
            Some (max 0 (L - (case dict_get (end_disp st) (a, d) of None \<Rightarrow> 0 | Some x \<Rightarrow> x))),
          r_width_ft = w\<rparr> \<in> set es))
   \<and> (to_int ''8000'' = Some 8000 \<and> to_int ''150'' = Some 150 \<and> to_int ''500'' = Some 500 \<longrightarrow>
        index_runways to_int (iterparse runways_clear runway_example) =
          Inr [(''AH_1'',
                [\<lparr>r_designator = ''18'', r_length_ft = Some 7500, r_width_ft = Some 150\<rparr>,
                 \<lparr>r_designator = ''36'', r_length_ft = Some 8000, r_width_ft = Some 150\<rparr>])])"
  using assemble_end [of _ _ _ _ st] runway_example_indexed [of to_int]
  by blast

theorem C3_effective_length_witness:
  "(\<exists>es. dict_get (assemble runway_example_maps) ''AH_1'' = Some es \<and>
      \<lparr>r_designator = ''18'', r_length_ft = Some 7500, r_width_ft = Some 150\<rparr> \<in> set es)
   \<and> index_runways plain_number (iterparse runways_clear runway_example) =
        Inr [(''AH_1'',
              [\<lparr>r_designator = ''18'', r_length_ft = Some 7500, r_width_ft = Some 150\<rparr>,
               \<lparr>r_designator = ''36'', r_length_ft = Some 8000, r_width_ft = Some 150\<rparr>])]"
proof -
  have b: "(''RWY_BASE_END_ABC123'', ''AH_1'', ''18'', ''ABC123'')
             \<in> set (end_info runway_example_maps)"
    by (simp add: runway_example_maps_def)
  have p: "dict_get (pair_dims runway_example_maps) (''AH_1'', ''ABC123'')
             = Some (Some 8000, Some 150)"
    by (simp add: runway_example_maps_def dict_get_def)
  have d: "dict_get (end_disp runway_example_maps) (''AH_1'', ''18'') = Some 500"
    by (simp add: runway_example_maps_def dict_get_def)
  have n: "plain_number ''8000'' = Some 8000 \<and> plain_number ''150'' = Some 150
             \<and> plain_number ''500'' = Some 500"
    by code_simp
  note c = C3_effective_length [of runway_example_maps plain_number]
  have "\<exists>es. dict_get (assemble runway_example_maps) ''AH_1'' = Some es \<and>
         \<lparr>r_designator = ''18'',
          r_length_ft =
            Some (max 0 (8000 - (case dict_get (end_disp runway_example_maps) (''AH_1'', ''18'')
                                 of None \<Rightarrow> 0 | Some x \<Rightarrow> x))),
          r_width_ft = Some 150\<rparr> \<in> set es"
    using conjunct1 [OF c, rule_format, OF b p] .
  then have g: "\<exists>es. dict_get (assemble runway_example_maps) ''AH_1'' = Some es \<and>
      \<lparr>r_designator = ''18'', r_length_ft = Some 7500, r_width_ft = Some 150\<rparr> \<in> set es"
    by (simp add: d)
  have i: "index_runways plain_number (iterparse runways_clear runway_example) =
        Inr [(''AH_1'',
              [\<lparr>r_designator = ''18'', r_length_ft = Some 7500, r_width_ft = Some 150\<rparr>,
               \<lparr>r_designator = ''36'', r_length_ft = Some 8000, r_width_ft = Some 150\<rparr>])]"
    using conjunct2 [OF c, rule_format, OF n] .
  from g i show ?thesis by (rule conjI)
qed

lemma href_search_empty: "re_search False HREF_RE [] = None"
  by code_simp

lemma href_ref_absent: "map_of (attrib c) XLINK_HREF = None \<Longrightarrow> href_ref c = None"
  by (simp add: href_ref_def href_search_empty)

lemma href_ref_no_match:
  "map_of (attrib c) XLINK_HREF = Some h \<Longrightarrow> re_search False HREF_RE h = None
     \<Longrightarrow> href_ref c = None"
  by (simp add: href_ref_def)

lemma runway_children_total:
  "\<forall>c \<in> set cs. localname (tag c) \<noteq> Inl IndexError \<Longrightarrow>
     \<exists>fs'. runway_children to_int cs fs = Inr fs'"
proof (induction cs arbitrary: fs)
  case Nil
  then show ?case by simp
next
  case (Cons c cs)
  then obtain t where t: "localname (tag c) = Inr t"
    using not_error [of "localname (tag c)"] by auto
  from Cons show ?case
    by (simp add: t)
qed

lemma runway_children_no_ref:
  "\<forall>c \<in> set cs. localname (tag c) = Inr ''associatedAirportHeliport'' \<longrightarrow> href_ref c = None \<Longrightarrow>
   runway_children to_int cs fs = Inr fs' \<Longrightarrow> airport_ref fs' = airport_ref fs"
proof (induction cs arbitrary: fs)
  case Nil
  then show ?case by simp
next
  case (Cons c cs)
  from Cons.prems(2) obtain t where t: "localname (tag c) = Inr t"
    by (cases "localname (tag c)") auto
  let ?fs = "(if t = ''designator'' then fs\<lparr>designator := Some (stripped_text c)\<rparr>
             else if t = ''associatedAirportHeliport'' then
               (case href_ref c of None \<Rightarrow> fs | Some r \<Rightarrow> fs\<lparr>airport_ref := Some r\<rparr>)
             else if t = ''lengthStrip'' then fs\<lparr>length_ft := to_int (stripped_text c)\<rparr>
             else if t = ''widthStrip'' then fs\<lparr>width_ft := to_int (stripped_text c)\<rparr>
             else fs)"
  from Cons.prems(2) have r: "runway_children to_int cs ?fs = Inr fs'"
    by (simp add: t)
  from Cons.prems(1) have
    "\<forall>c \<in> set cs. localname (tag c) = Inr ''associatedAirportHeliport'' \<longrightarrow> href_ref c = None"
    by simp
  from Cons.IH [OF this r] have "airport_ref fs' = airport_ref ?fs" .
  also have "airport_ref ?fs = airport_ref fs"
    using Cons.prems(1) t by auto
  finally show ?case .
qed

lemma runway_timeslice_dropped:
  assumes "\<forall>c \<in> set (children e). localname (tag c) \<noteq> Inl IndexError"
    and "\<forall>c \<in> set (children e).
           localname (tag c) = Inr ''associatedAirportHeliport'' \<longrightarrow> href_ref c = None"
  shows "runway_timeslice to_int st e = Inr st"
proof -
  from runway_children_total [OF assms(1)] obtain fs
    where fs: "runway_children to_int (children e) no_rwy_fields = Inr fs" by blast
  from runway_children_no_ref [OF assms(2) fs] have "airport_ref fs = None"
    by (simp add: no_rwy_fields_def)
  with fs show ?thesis
    by (simp add: runway_timeslice_def)
qed

lemma runways_run_append:
  "runways_run to_int st (evs1 @ evs2) =
     (case runways_run to_int st evs1 of
        Inl err \<Rightarrow> Inl err
      | Inr st' \<Rightarrow> runways_run to_int st' evs2)"
  by (induction evs1 arbitrary: st) (auto split: sum.splits)

lemma runways_run_skip:
  "\<forall>st. runways_step to_int st ev = Inr st \<Longrightarrow>
     runways_run to_int st (evs1 @ ev # evs2) = runways_run to_int st (evs1 @ evs2)"
  by (simp add: runways_run_append split: sum.splits)

lemma airport_ref_loop_none:
  "\<forall>x \<in> set xs. localname (tag x) \<noteq> Inl IndexError \<Longrightarrow>
   \<forall>x \<in> set xs. \<forall>t. localname (tag x) = Inr t \<longrightarrow> t \<in> set airport_ref_tags
      \<longrightarrow> href_ref x = None \<Longrightarrow>
   airport_ref_loop xs = Inr None"
proof (induction xs)
  case Nil
  then show ?case by simp
next
  case (Cons x xs)
  then obtain t where t: "localname (tag x) = Inr t"
    using not_error [of "localname (tag x)"] by auto
  from Cons show ?case
    by (auto simp: t)
qed

lemma self_in_iter: "e \<in> set (iter e)"
  by (cases e) simp

lemma gear_across_dropped:
  assumes "\<forall>x \<in> set (iter e). localname (tag x) \<noteq> Inl IndexError"
    and "\<forall>x \<in> set (iter e). \<forall>t. localname (tag x) = Inr t \<longrightarrow> t \<in> set airport_ref_tags
           \<longrightarrow> href_ref x = None"
  shows "gear_across_step gn e = Inr gn"
proof -
  from assms(1) self_in_iter [of e] obtain t where t: "localname (tag e) = Inr t"
    using not_error [of "localname (tag e)"] by auto
  show ?thesis
    by (simp add: gear_across_step_def t airport_ref_loop_none [OF assms])
qed

lemma gear_across_run_append:
  "gear_across_run gn (es1 @ es2) =
     (case gear_across_run gn es1 of
        Inl err \<Rightarrow> Inl err
      | Inr gn' \<Rightarrow> gear_across_run gn' es2)"
  by (induction es1 arbitrary: gn) (auto split: sum.splits)

text \<open>
  Claim C8.  The reference resolution yields nothing when the \<open>href\<close> attribute is
  absent or when the pattern does not match its value.  A runway time slice none of
  whose \<open>associatedAirportHeliport\<close> children resolves has no effect on the result of
  \<open>index_runways\<close>, and an element none of whose reference descendants resolves has no
  effect on the result of \<open>index_gear_notes_across\<close>: the result is that of the event
  stream without it, and no error is raised by it.
\<close>

theorem C8_missing_reference_dropped:
  "(map_of (attrib c) XLINK_HREF = None \<longrightarrow> href_ref c = None)
   \<and> (\<forall>h. map_of (attrib c) XLINK_HREF = Some h \<longrightarrow> re_search False HREF_RE h = None
          \<longrightarrow> href_ref c = None)
   \<and> (localname (tag e) = Inr ''RunwayTimeSlice''
        \<longrightarrow> (\<forall>x \<in> set (children e). localname (tag x) \<noteq> Inl IndexError)
        \<longrightarrow> (\<forall>x \<in> set (children e).
               localname (tag x) = Inr ''associatedAirportHeliport'' \<longrightarrow> href_ref x = None)
        \<longrightarrow> (\<forall>st. runways_step to_int st (End, e) = Inr st)
            \<and> index_runways to_int (evs1 @ (End, e) # evs2) = index_runways to_int (evs1 @ evs2))
   \<and> ((\<forall>x \<in> set (iter e). localname (tag x) \<noteq> Inl IndexError)
        \<longrightarrow> (\<forall>x \<in> set (iter e). \<forall>t. localname (tag x) = Inr t \<longrightarrow> t \<in> set airport_ref_tags
               \<longrightarrow> href_ref x = None)
        \<longrightarrow> (\<forall>gn. gear_across_step gn e = Inr gn)
            \<and> index_gear_notes_across (es1 @ e # es2) = index_gear_notes_across (es1 @ es2))"
proof (intro conjI impI allI)
  assume "map_of (attrib c) XLINK_HREF = None"
  then show "href_ref c = None" by (rule href_ref_absent)
next
  fix h
  assume "map_of (attrib c) XLINK_HREF = Some h" "re_search False HREF_RE h = None"
  then show "href_ref c = None" by (rule href_ref_no_match)
next
  fix st
  assume t: "localname (tag e) = Inr ''RunwayTimeSlice''"
    and w: "\<forall>x \<in> set (children e). localname (tag x) \<noteq> Inl IndexError"
    and n: "\<forall>x \<in> set (children e).
               localname (tag x) = Inr ''associatedAirportHeliport'' \<longrightarrow> href_ref x = None"
  show "runways_step to_int st (End, e) = Inr st"
    by (simp add: runways_step_def t runway_timeslice_dropped [OF w n])
next
  assume t: "localname (tag e) = Inr ''RunwayTimeSlice''"
    and w: "\<forall>x \<in> set (children e). localname (tag x) \<noteq> Inl IndexError"
    and n: "\<forall>x \<in> set (children e).
               localname (tag x) = Inr ''associatedAirportHeliport'' \<longrightarrow> href_ref x = None"
  have "\<forall>st. runways_step to_int st (End, e) = Inr st"
    by (simp add: runways_step_def t runway_timeslice_dropped [OF w n])
  then show "index_runways to_int (evs1 @ (End, e) # evs2) = index_runways to_int (evs1 @ evs2)"
    by (simp add: index_runways_def runways_run_skip)
next
  fix gn
  assume w: "\<forall>x \<in> set (iter e). localname (tag x) \<noteq> Inl IndexError"
    and n: "\<forall>x \<in> set (iter e). \<forall>t. localname (tag x) = Inr t \<longrightarrow> t \<in> set airport_ref_tags
               \<longrightarrow> href_ref x = None"
  show "gear_across_step gn e = Inr gn"
    by (rule gear_across_dropped [OF w n])
next
  assume w: "\<forall>x \<in> set (iter e). localname (tag x) \<noteq> Inl IndexError"
    and n: "\<forall>x \<in> set (iter e). \<forall>t. localname (tag x) = Inr t \<longrightarrow> t \<in> set airport_ref_tags
               \<longrightarrow> href_ref x = None"
  have "\<forall>gn. gear_across_step gn e = Inr gn"
    using gear_across_dropped [OF w n] by blast
  then show "index_gear_notes_across (es1 @ e # es2) = index_gear_notes_across (es1 @ es2)"
    by (simp add: index_gear_notes_across_def gear_across_run_append split: sum.splits)
qed

theorem C8_missing_reference_dropped_witness:
  "href_ref (node ''associatedAirportHeliport'' []) = None
   \<and> href_ref unresolved_ref = None
   \<and> index_runways plain_number
        [(Start, feature ''Runway'' ''RWY_BASE_END_ABC123'' []), (End, unresolved_slice)] = Inr []
   \<and> index_gear_notes_across [unresolved_slice] = Inr []"
proof -
  have a: "map_of (attrib (node ''associatedAirportHeliport'' [])) XLINK_HREF = None"
    by (simp add: node_def)
  have b: "map_of (attrib unresolved_ref) XLINK_HREF = Some ''urn:uuid:AH_1''"
    by (simp add: unresolved_ref_def)
  have s: "re_search False HREF_RE ''urn:uuid:AH_1'' = None"
    by code_simp
  have r1: "href_ref (node ''associatedAirportHeliport'' []) = None"
    using C8_missing_reference_dropped
      [of "node ''associatedAirportHeliport'' []" unresolved_slice plain_number "[]" "[]" "[]" "[]"]
      a
    by blast
  have r2: "href_ref unresolved_ref = None"
    using C8_missing_reference_dropped
      [of unresolved_ref unresolved_slice plain_number "[]" "[]" "[]" "[]"] b s
    by blast
  have t: "localname (tag unresolved_slice) = Inr ''RunwayTimeSlice''"
    by code_simp
  have w1: "\<forall>x \<in> set (children unresolved_slice). localname (tag x) \<noteq> Inl IndexError"
    by code_simp
  have n1: "\<forall>x \<in> set (children unresolved_slice).
              localname (tag x) = Inr ''associatedAirportHeliport'' \<longrightarrow> href_ref x = None"
  proof -
    have "list_all (\<lambda>x. localname (tag x) = Inr ''associatedAirportHeliport''
                         \<longrightarrow> href_ref x = None) (children unresolved_slice)"
      by code_simp
    then show ?thesis by (simp add: list_all_iff)
  qed
  have w2: "\<forall>x \<in> set (iter unresolved_slice). localname (tag x) \<noteq> Inl IndexError"
    by code_simp
  have n2: "\<forall>x \<in> set (iter unresolved_slice). \<forall>t. localname (tag x) = Inr t
              \<longrightarrow> t \<in> set airport_ref_tags \<longrightarrow> href_ref x = None"
  proof -
    have "list_all (\<lambda>x. case localname (tag x) of
                           Inl err \<Rightarrow> True
                         | Inr t \<Rightarrow> t \<in> set airport_ref_tags \<longrightarrow> href_ref x = None)
            (iter unresolved_slice)"
      by code_simp
    then show ?thesis by (auto simp: list_all_iff)
  qed
  note c = C8_missing_reference_dropped
      [of unresolved_ref unresolved_slice plain_number
          "[(Start, feature ''Runway'' ''RWY_BASE_END_ABC123'' [])]" "[]" "[]" "[]"]
  have "index_runways plain_number
          ([(Start, feature ''Runway'' ''RWY_BASE_END_ABC123'' [])] @ (End, unresolved_slice) # [])
        = index_runways plain_number ([(Start, feature ''Runway'' ''RWY_BASE_END_ABC123'' [])] @ [])"
    using c t w1 n1 by blast
  moreover have "index_runways plain_number [(Start, feature ''Runway'' ''RWY_BASE_END_ABC123'' [])]
        = Inr []"
    by code_simp
  ultimately have r3: "index_runways plain_number
        [(Start, feature ''Runway'' ''RWY_BASE_END_ABC123'' []), (End, unresolved_slice)] = Inr []"
    by simp
  have "index_gear_notes_across ([] @ unresolved_slice # []) = index_gear_notes_across ([] @ [])"
    using c w2 n2 by blast
  then have r4: "index_gear_notes_across [unresolved_slice] = Inr []"
    by (simp add: index_gear_notes_across_def)
  from r1 r2 r3 r4 show ?thesis by simp
qed

section \<open>Properties of the airport indexer\<close>

lemma dict_keys_Nil: "dict_keys [] = {}"
  by (simp add: dict_keys_def)

lemma dict_keys_Cons: "dict_keys ((k, v) # d) = insert k (dict_keys d)"
  by (simp add: dict_keys_def)

lemma keys_dict_set: "dict_keys (dict_set d k v) = insert k (dict_keys d)"
proof (induction d)
  case Nil
  show ?case by (simp add: dict_keys_Nil dict_keys_Cons)
next
  case (Cons p d)
  obtain k' v' where p: "p = (k', v')" by (cases p)
  from Cons show ?case
    by (cases "k' = k") (auto simp: p dict_keys_Cons)
qed

lemma airports_run_append:
  "airports_run pyfloat st (evs1 @ evs2) =
     (case airports_run pyfloat st evs1 of
        Inl err \<Rightarrow> Inl err
      | Inr st' \<Rightarrow> airports_run pyfloat st' evs2)"
  by (induction evs1 arbitrary: st) (auto split: sum.splits)

lemma airport_timeslice_unknown:
  "falsy (cur_airport_id st) \<Longrightarrow> airport_timeslice pyfloat st ts = Inr st' \<Longrightarrow> st' = st"
  by (cases "cur_airport_id st")
     (auto simp: airport_timeslice_def split: sum.splits prod.splits if_splits)

lemma airports_step_keys:
  assumes "airports_step pyfloat st ev = Inr st'"
    and "\<forall>k \<in> dict_keys (airports st) \<union> dict_keys (gear_notes st). k \<noteq> [] \<and> k \<in> S"
    and "\<forall>k. cur_airport_id st = Some k \<longrightarrow> k \<in> S"
  shows "(\<forall>k \<in> dict_keys (airports st') \<union> dict_keys (gear_notes st').
            k \<noteq> [] \<and> k \<in> S \<union> opened_ids [ev])
         \<and> (\<forall>k. cur_airport_id st' = Some k \<longrightarrow>
               k \<in> S \<union> opened_ids [ev])"
proof -
  from assms(1) obtain t where t: "localname (tag (snd ev)) = Inr t"
    by (cases "localname (tag (snd ev))") (auto simp: airports_step_def)
  consider (opened) "fst ev = Start \<and> t = ''AirportHeliport''"
    | (slice) "\<not> (fst ev = Start \<and> t = ''AirportHeliport'')"
        "fst ev = End \<and> t = ''AirportHeliportTimeSlice''"
    | (closed) "\<not> (fst ev = Start \<and> t = ''AirportHeliport'')"
        "\<not> (fst ev = End \<and> t = ''AirportHeliportTimeSlice'')"
        "fst ev = End \<and> t = ''AirportHeliport''"
    | (other) "\<not> (fst ev = Start \<and> t = ''AirportHeliport'')"
        "\<not> (fst ev = End \<and> t = ''AirportHeliportTimeSlice'')"
        "\<not> (fst ev = End \<and> t = ''AirportHeliport'')"
    by blast
  then show ?thesis
  proof cases
    case opened
    with assms t show ?thesis
      by (auto simp: airports_step_def)
  next
    case slice
    with assms(1) t have ts: "airport_timeslice pyfloat st (snd ev) = Inr st'"
      by (simp add: airports_step_def)
    show ?thesis
    proof (cases "falsy (cur_airport_id st)")
      case True
      from airport_timeslice_unknown [OF True ts] assms(2,3) show ?thesis by auto
    next
      case False
      then obtain aid where aid: "cur_airport_id st = Some aid" "aid \<noteq> []"
        by (cases "cur_airport_id st") auto
      with assms(3) have "aid \<in> S" by simp
      with ts aid assms(2,3) show ?thesis
        by (auto simp: airport_timeslice_def keys_dict_set
            split: sum.splits prod.splits if_splits)
    qed
  next
    case closed
    with assms t show ?thesis
      by (auto simp: airports_step_def)
  next
    case other
    with assms t show ?thesis
      by (auto simp: airports_step_def)
  qed
qed

lemma airports_run_keys:
  "airports_run pyfloat st evs = Inr st' \<Longrightarrow>
   \<forall>k \<in> dict_keys (airports st) \<union> dict_keys (gear_notes st). k \<noteq> [] \<and> k \<in> S \<Longrightarrow>
   \<forall>k. cur_airport_id st = Some k \<longrightarrow> k \<in> S \<Longrightarrow>
   \<forall>k \<in> dict_keys (airports st') \<union> dict_keys (gear_notes st').
      k \<noteq> [] \<and> k \<in> S \<union> opened_ids evs"
proof (induction evs arbitrary: st S)
  case Nil
  then show ?case by simp
next
  case (Cons ev evs)
  from Cons.prems(1) obtain st1 where
    s1: "airports_step pyfloat st ev = Inr st1" and r: "airports_run pyfloat st1 evs = Inr st'"
    by (auto split: sum.splits)
  let ?S = "S \<union> opened_ids [ev]"
  note k = airports_step_keys [OF s1 Cons.prems(2,3)]
  have a: "\<forall>k \<in> dict_keys (airports st1) \<union> dict_keys (gear_notes st1). k \<noteq> [] \<and> k \<in> ?S"
    using k by (rule conjunct1)
  have b: "\<forall>k. cur_airport_id st1 = Some k \<longrightarrow> k \<in> ?S"
    using k by (rule conjunct2)
  have sub: "?S \<union> opened_ids evs = S \<union> opened_ids (ev # evs)"
    by (simp add: Un_assoc)
  from Cons.IH [OF r a b] sub show ?case by blast
qed

lemma airports_run_not_opened:
  "airports_run pyfloat st evs = Inr st' \<Longrightarrow>
   \<forall>ev \<in> set evs. \<not> (fst ev = Start \<and> localname (tag (snd ev)) = Inr ''AirportHeliport'') \<Longrightarrow>
   cur_airport_id st = None \<Longrightarrow> cur_airport_id st' = None"
proof (induction evs arbitrary: st)
  case Nil
  then show ?case by simp
next
  case (Cons ev evs)
  from Cons.prems(1) obtain st1 where
    s1: "airports_step pyfloat st ev = Inr st1" and r: "airports_run pyfloat st1 evs = Inr st'"
    by (auto split: sum.splits)
  from Cons.prems(2) have n: "\<not> (fst ev = Start \<and> localname (tag (snd ev)) = Inr ''AirportHeliport'')"
    by simp
  have "cur_airport_id st1 = None"
  proof (cases "\<exists>t. localname (tag (snd ev)) = Inr t \<and> fst ev = End \<and> t = ''AirportHeliportTimeSlice''")
    case True
    with s1 n have "airport_timeslice pyfloat st (snd ev) = Inr st1"
      by (auto simp: airports_step_def)
    from airport_timeslice_unknown [OF _ this] Cons.prems(3) show ?thesis by simp
  next
    case False
    with s1 n Cons.prems(3) show ?thesis
      by (auto simp: airports_step_def split: sum.splits if_splits)
  qed
  from Cons.IH [OF r _ this] Cons.prems(2) show ?case by simp
qed

text \<open>
  Claim C4.  A time slice that ends while the container's identifier is unknown adds
  nothing: the result of \<open>index_airports\<close> is that of the stream without it.  The
  identifier is unknown before any container is opened and after a container is closed.
  In every result, each key of the airports map and of the gear-notes map is the
  non-empty \<open>gml:id\<close> of a container opened in the stream.
\<close>

theorem C4_no_null_key:
  "(airports_run pyfloat airports_init evs1 = Inr st \<longrightarrow> falsy (cur_airport_id st) \<longrightarrow>
      localname (tag ts) = Inr ''AirportHeliportTimeSlice'' \<longrightarrow>
      index_airports pyfloat (evs1 @ (End, ts) # evs2) = Inr out \<longrightarrow>
      index_airports pyfloat (evs1 @ evs2) = Inr out)
   \<and> (airports_run pyfloat airports_init evs1 = Inr st \<longrightarrow>
        (\<forall>ev \<in> set evs1.
           \<not> (fst ev = Start \<and> localname (tag (snd ev)) = Inr ''AirportHeliport'')) \<longrightarrow>
        cur_airport_id st = None)
   \<and> (airports_run pyfloat airports_init (evs0 @ [(End, c)]) = Inr st' \<longrightarrow>
        localname (tag c) = Inr ''AirportHeliport'' \<longrightarrow> cur_airport_id st' = None)
   \<and> (index_airports pyfloat evs = Inr (aps, gns) \<longrightarrow>
        (\<forall>k \<in> dict_keys aps \<union> dict_keys gns. k \<noteq> [] \<and> k \<in> opened_ids evs))"
proof (intro conjI impI)
  assume r: "airports_run pyfloat airports_init evs1 = Inr st"
    and f: "falsy (cur_airport_id st)"
    and t: "localname (tag ts) = Inr ''AirportHeliportTimeSlice''"
    and i: "index_airports pyfloat (evs1 @ (End, ts) # evs2) = Inr out"
  have s: "airports_step pyfloat st (End, ts) = airport_timeslice pyfloat st ts"
    by (simp add: airports_step_def t)
  from i r obtain st1 where st1: "airport_timeslice pyfloat st ts = Inr st1"
    by (cases "airport_timeslice pyfloat st ts")
       (auto simp: index_airports_def airports_run_append s)
  from airport_timeslice_unknown [OF f st1] have "st1 = st" .
  with i r st1 show "index_airports pyfloat (evs1 @ evs2) = Inr out"
    by (simp add: index_airports_def airports_run_append s)
next
  assume "airports_run pyfloat airports_init evs1 = Inr st"
    and "\<forall>ev \<in> set evs1. \<not> (fst ev = Start \<and> localname (tag (snd ev)) = Inr ''AirportHeliport'')"
  then show "cur_airport_id st = None"
    by (rule airports_run_not_opened) (simp add: airports_init_def)
next
  assume r: "airports_run pyfloat airports_init (evs0 @ [(End, c)]) = Inr st'"
    and t: "localname (tag c) = Inr ''AirportHeliport''"
  then show "cur_airport_id st' = None"
    by (auto simp: airports_run_append airports_step_def split: sum.splits)
next
  assume i: "index_airports pyfloat evs = Inr (aps, gns)"
  then obtain st where r: "airports_run pyfloat airports_init evs = Inr st"
    and o: "aps = airports st" "gns = gear_notes st"
    by (auto simp: index_airports_def split: sum.splits)
  from airports_run_keys [OF r, of "{}"] o
  show "\<forall>k \<in> dict_keys aps \<union> dict_keys gns. k \<noteq> [] \<and> k \<in> opened_ids evs"
    by (simp add: airports_init_def dict_keys_Nil)
qed

theorem C4_no_null_key_witness:
  "index_airports plain_decimal (iterparse airports_clear airport_feature_example) =
     Inr ([(''AH_1'',
            \<lparr>a_code = Some ''TEST'', a_name = Some ''Test Field'', a_icao = Some ''KTEST'',
             a_lat = Some (352, 1), a_lon = Some (- 1205, 1), a_city = None,
             a_state_code = None, a_state = None\<rparr>)],
          [(''AH_1'', [''A-GEAR BAK-12, (1200 FT)''])])
   \<and> cur_airport_id (airports_init :: (int \<times> nat) airports_state) = None
   \<and> dict_keys [(''AH_1'', [''A-GEAR BAK-12, (1200 FT)''])]
        \<subseteq> opened_ids (iterparse airports_clear airport_feature_example
                         @ [(End, stray_slice)])"
proof -
  let ?evs = "iterparse airports_clear airport_feature_example"
  let ?rec = "\<lparr>a_code = Some ''TEST'', a_name = Some ''Test Field'', a_icao = Some ''KTEST'',
               a_lat = Some (352, 1), a_lon = Some (- 1205 :: int, 1 :: nat), a_city = None,
               a_state_code = None, a_state = None\<rparr>"
  let ?st = "\<lparr>airports = [(''AH_1'', ?rec)],
              gear_notes = [(''AH_1'', [''A-GEAR BAK-12, (1200 FT)''])],
              cur_airport_id = None\<rparr>"
  let ?out = "([(''AH_1'', ?rec)], [(''AH_1'', [''A-GEAR BAK-12, (1200 FT)''])])"
  have r: "airports_run plain_decimal airports_init ?evs = Inr ?st"
    by code_simp
  have f: "falsy (cur_airport_id ?st)"
    by simp
  have t: "localname (tag stray_slice) = Inr ''AirportHeliportTimeSlice''"
    by code_simp
  have i: "index_airports plain_decimal (?evs @ (End, stray_slice) # []) = Inr ?out"
    by code_simp
  have e: "?evs = butlast ?evs @ [(End, seen airports_clear airport_feature_example)]"
    by code_simp
  have tc: "localname (tag (seen airports_clear airport_feature_example)) = Inr ''AirportHeliport''"
    by code_simp
  have n: "\<forall>ev \<in> set ([] :: (event \<times> elem) list).
             \<not> (fst ev = Start \<and> localname (tag (snd ev)) = Inr ''AirportHeliport'')"
    by simp
  have r0: "airports_run plain_decimal airports_init [] = Inr airports_init"
    by simp
  note c1 = C4_no_null_key [of plain_decimal ?evs ?st stray_slice "[]" ?out
      "butlast ?evs" "seen airports_clear airport_feature_example" ?st
      "?evs @ [(End, stray_slice)]" "fst ?out" "snd ?out"]
  note c2 = C4_no_null_key [of plain_decimal "[]" airports_init stray_slice "[]" ?out
      "butlast ?evs" "seen airports_clear airport_feature_example" ?st
      "?evs @ [(End, stray_slice)]" "fst ?out" "snd ?out"]
  from c1 r f t i have a: "index_airports plain_decimal (?evs @ []) = Inr ?out"
    by blast
  from c2 r0 n have b: "cur_airport_id (airports_init :: (int \<times> nat) airports_state) = None"
    by blast
  from c1 i have "\<forall>k \<in> dict_keys (fst ?out) \<union> dict_keys (snd ?out).
                   k \<noteq> [] \<and> k \<in> opened_ids (?evs @ [(End, stray_slice)])"
    by simp
  then have d: "dict_keys [(''AH_1'', [''A-GEAR BAK-12, (1200 FT)''])]
                 \<subseteq> opened_ids (?evs @ [(End, stray_slice)])"
    by auto
  from a b d show ?thesis by simp
qed

lemma airport_children_append:
  "airport_children pyfloat (cs1 @ cs2) fs =
     (case airport_children pyfloat cs1 fs of
        Inl err \<Rightarrow> Inl err
      | Inr fs' \<Rightarrow> airport_children pyfloat cs2 fs')"
  by (induction cs1 arbitrary: fs) (auto split: sum.splits)

lemma read_pos_state: "state_code (read_pos pyfloat txt fs) = state_code fs"
  by (simp add: read_pos_def split: option.splits list.splits)

lemma arp_loop_state:
  "arp_loop pyfloat xs fs = Inr fs' \<Longrightarrow> state_code fs' = state_code fs"
  by (induction xs arbitrary: fs) (auto simp: read_pos_state split: sum.splits if_splits)

lemma served_city_loop_state:
  "served_city_loop xs fs = Inr fs' \<Longrightarrow> state_code fs' = state_code fs"
  by (induction xs arbitrary: fs) (auto split: sum.splits if_splits)

lemma read_state_keeps:
  "\<not> falsy (state_code fs) \<Longrightarrow> state_code (read_state stag sub fs) = state_code fs"
  by (simp add: read_state_def)

lemma extension_loop_keeps:
  "extension_loop xs fs = Inr fs' \<Longrightarrow> \<not> falsy (state_code fs) \<Longrightarrow>
     state_code fs' = state_code fs"
proof (induction xs arbitrary: fs)
  case Nil
  then show ?case by simp
next
  case (Cons x xs)
  from Cons.prems(1) obtain t where t: "localname (tag x) = Inr t"
    and r: "extension_loop xs (read_state t x fs) = Inr fs'"
    by (auto split: sum.splits)
  from Cons.IH [OF r] Cons.prems(2) show ?case
    by (simp add: read_state_keeps)
qed

lemma address_loop_keeps:
  "address_loop xs fs = Inr fs' \<Longrightarrow> \<not> falsy (state_code fs) \<Longrightarrow>
     state_code fs' = state_code fs"
proof (induction xs arbitrary: fs)
  case Nil
  then show ?case by simp
next
  case (Cons x xs)
  from Cons.prems(1) obtain t where t: "localname (tag x) = Inr t"
    by (auto split: sum.splits)
  let ?fs = "(if t = ''city'' \<and> falsy (city fs) then
               (if stripped_text x \<noteq> []
                then fs\<lparr>city := Some (stripped_text x)\<rparr> else fs)
             else if t \<in> set [''administrativeArea'', ''stateProvince'']
                     \<and> falsy (state_code fs) then
               (if stripped_text x \<noteq> []
                then fs\<lparr>state_code := Some (stripped_text x)\<rparr> else fs)
             else fs)"
  from Cons.prems(1) t have r: "address_loop xs ?fs = Inr fs'"
    by simp
  have k: "state_code ?fs = state_code fs"
    using Cons.prems(2) by simp
  from Cons.IH [OF r] k Cons.prems(2) show ?case
    by simp
qed

lemma organisation_loop_keeps:
  "organisation_loop xs fs = Inr fs' \<Longrightarrow> \<not> falsy (state_code fs) \<Longrightarrow>
     state_code fs' = state_code fs"
proof (induction xs arbitrary: fs)
  case Nil
  then show ?case by simp
next
  case (Cons x xs)
  from Cons.prems(1) obtain t where t: "localname (tag x) = Inr t"
    by (auto split: sum.splits)
  show ?case
  proof (cases "t = ''address''")
    case True
    with Cons.prems(1) t obtain fs1 where a: "address_loop (iter x) fs = Inr fs1"
      and r: "organisation_loop xs fs1 = Inr fs'"
      by (auto split: sum.splits)
    from address_loop_keeps [OF a Cons.prems(2)] have k: "state_code fs1 = state_code fs" .
    from Cons.IH [OF r] k Cons.prems(2) show ?thesis by simp
  next
    case False
    with Cons.prems(1) t have r: "organisation_loop xs (read_state t x fs) = Inr fs'"
      by simp
    from Cons.IH [OF r] Cons.prems(2) show ?thesis
      by (simp add: read_state_keeps)
  qed
qed

lemma airport_child_keeps:
  "airport_child pyfloat c fs = Inr fs' \<Longrightarrow> \<not> falsy (state_code fs) \<Longrightarrow>
     state_code fs' = state_code fs"
  by (auto simp: airport_child_def arp_loop_state served_city_loop_state extension_loop_keeps
      organisation_loop_keeps split: sum.splits if_splits)

lemma airport_children_keeps:
  "airport_children pyfloat cs fs = Inr fs' \<Longrightarrow> \<not> falsy (state_code fs) \<Longrightarrow>
     state_code fs' = state_code fs"
proof (induction cs arbitrary: fs)
  case Nil
  then show ?case by simp
next
  case (Cons c cs)
  from Cons.prems(1) obtain fs1 where c: "airport_child pyfloat c fs = Inr fs1"
    and r: "airport_children pyfloat cs fs1 = Inr fs'"
    by (auto split: sum.splits)
  from airport_child_keeps [OF c Cons.prems(2)] have k: "state_code fs1 = state_code fs" .
  from Cons.IH [OF r] k Cons.prems(2) show ?case by simp
qed

lemma dict_get_airports_stored:
  assumes "airport_timeslice pyfloat st ts = Inr st'"
    and "cur_airport_id st = Some aid" and "aid \<noteq> []"
  shows "\<exists>code name fs.
           extract_designator_and_name ts = Inr (code, name)
           \<and> airport_children pyfloat (children ts) no_fields = Inr fs
           \<and> dict_get (airports st') aid = Some (airport_of code name fs)"
  using assms
  by (auto simp: airport_timeslice_def dict_get_set split: sum.splits prod.splits if_splits)

lemma airport_child_extension:
  "localname (tag c) = Inr ''extension'' \<Longrightarrow>
     airport_child pyfloat c fs = extension_loop (iter c) fs"
  by (simp add: airport_child_def)

lemma airport_child_organisation:
  "localname (tag c) = Inr t \<Longrightarrow> t \<in> set organisation_tags \<Longrightarrow>
     airport_child pyfloat c fs = organisation_loop (iter c) fs"
  by (auto simp: airport_child_def organisation_tags_def)

lemma state_code_stored:
  assumes ch: "children ts = pre @ c # post"
    and pre: "airport_children pyfloat pre no_fields = Inr fs0"
    and c: "airport_child pyfloat c fs0 = Inr fs1"
    and s: "state_code fs1 = Some s" "s \<noteq> []"
    and cur: "cur_airport_id st = Some aid" "aid \<noteq> []"
    and ts: "airport_timeslice pyfloat st ts = Inr st'"
  shows "\<exists>r. dict_get (airports st') aid = Some r \<and> a_state_code r = Some s"
proof -
  from dict_get_airports_stored [OF ts cur] obtain code name fs where
    fs: "airport_children pyfloat (children ts) no_fields = Inr fs"
    and r: "dict_get (airports st') aid = Some (airport_of code name fs)"
    by blast
  from pre c have "airport_children pyfloat (pre @ [c]) no_fields = Inr fs1"
    by (simp add: airport_children_append)
  with fs ch have "airport_children pyfloat post fs1 = Inr fs"
    using airport_children_append [of pyfloat "pre @ [c]" post no_fields] by simp
  from airport_children_keeps [OF this] s have "state_code fs = Some s"
    by simp
  with s(2) have "a_state_code (airport_of code name fs) = Some s"
    by (simp add: airport_of_def opt_or_none_def)
  with r show ?thesis by blast
qed

text \<open>
  Claim C7, as the code has it.  The state code is found first-come: once a child of the
  time slice has given a non-empty state code, the children after it do not change it.
  So the stored code is that of the agency extension when the extension is the first
  child to give one, and that of the organisation block when the block is the first;
  later candidates in the same time slice are ignored.
\<close>

theorem C7_first_found_state_code:
  "(airport_children pyfloat pre fs0 = Inr fs1 \<longrightarrow> \<not> falsy (state_code fs1) \<longrightarrow>
      airport_children pyfloat (pre @ post) fs0 = Inr fs \<longrightarrow> state_code fs = state_code fs1)
   \<and> (children ts = pre @ c # post \<longrightarrow>
        airport_children pyfloat pre no_fields = Inr fs0 \<longrightarrow>
        (localname (tag c) = Inr ''extension'' \<and> extension_loop (iter c) fs0 = Inr fs1
         \<or> localname (tag c) \<in> Inr ` set organisation_tags
             \<and> organisation_loop (iter c) fs0 = Inr fs1) \<longrightarrow>
        state_code fs1 = Some s \<longrightarrow> s \<noteq> [] \<longrightarrow>
        cur_airport_id st = Some aid \<longrightarrow> aid \<noteq> [] \<longrightarrow>
        airport_timeslice pyfloat st ts = Inr st' \<longrightarrow>
        (\<exists>r. dict_get (airports st') aid = Some r \<and> a_state_code r = Some s))"
proof (intro conjI impI)
  assume "airport_children pyfloat pre fs0 = Inr fs1" "\<not> falsy (state_code fs1)"
    "airport_children pyfloat (pre @ post) fs0 = Inr fs"
  then show "state_code fs = state_code fs1"
    by (simp add: airport_children_append airport_children_keeps)
next
  assume ch: "children ts = pre @ c # post"
    and pre: "airport_children pyfloat pre no_fields = Inr fs0"
    and c: "localname (tag c) = Inr ''extension'' \<and> extension_loop (iter c) fs0 = Inr fs1
         \<or> localname (tag c) \<in> Inr ` set organisation_tags
             \<and> organisation_loop (iter c) fs0 = Inr fs1"
    and s: "state_code fs1 = Some s" "s \<noteq> []"
    and cur: "cur_airport_id st = Some aid" "aid \<noteq> []"
    and ts: "airport_timeslice pyfloat st ts = Inr st'"
  from c have "airport_child pyfloat c fs0 = Inr fs1"
    by (auto simp: airport_child_extension airport_child_organisation)
  from state_code_stored [OF ch pre this s cur ts]
  show "\<exists>r. dict_get (airports st') aid = Some r \<and> a_state_code r = Some s" .
qed

theorem C7_first_found_state_code_witness:
  "airport_timeslice plain_decimal
     \<lparr>airports = [], gear_notes = [], cur_airport_id = Some ''AH_2''\<rparr> state_slice =
     Inr \<lparr>airports =
            [(''AH_2'',
              \<lparr>a_code = Some ''TEST'', a_name = Some ''Test Field'', a_icao = None,
               a_lat = None, a_lon = None, a_city = Some ''Shelby'',
               a_state_code = Some ''TX'', a_state = None\<rparr>)],
          gear_notes = [], cur_airport_id = Some ''AH_2''\<rparr>
   \<and> (\<exists>r. dict_get
             [(''AH_2'',
               \<lparr>a_code = Some ''TEST'', a_name = Some ''Test Field'', a_icao = None,
                a_lat = None :: (int \<times> nat) option, a_lon = None, a_city = Some ''Shelby'',
                a_state_code = Some ''TX'', a_state = None\<rparr>)] ''AH_2'' = Some r
          \<and> a_state_code r = Some ''TX'')"
proof -
  let ?pre = "[leaf ''designator'' ''TEST'', leaf ''name'' ''Test Field'']"
  let ?c = "node ''contact''
              [node ''address'' [leaf ''city'' ''Shelby'', leaf ''administrativeArea'' ''TX'']]"
  let ?post = "[node ''extension'' [leaf ''countyStatePostOfficeCode'' ''CA'']]"
  let ?fs1 = "\<lparr>icao = None, lat = None :: (int \<times> nat) option, lon = None,
               city = Some ''Shelby'', state_code = Some ''TX'', state_name = None\<rparr>"
  let ?st = "\<lparr>airports = [] :: (string, (int \<times> nat) airport) dict, gear_notes = [],
              cur_airport_id = Some ''AH_2''\<rparr>"
  let ?st' = "\<lparr>airports =
            [(''AH_2'',
              \<lparr>a_code = Some ''TEST'', a_name = Some ''Test Field'', a_icao = None,
               a_lat = None :: (int \<times> nat) option, a_lon = None, a_city = Some ''Shelby'',
               a_state_code = Some ''TX'', a_state = None\<rparr>)],
          gear_notes = [], cur_airport_id = Some ''AH_2''\<rparr>"
  have ch: "children state_slice = ?pre @ ?c # ?post"
    by (simp add: state_slice_def node_def)
  have pre: "airport_children plain_decimal ?pre no_fields = Inr no_fields"
    by code_simp
  have c: "localname (tag ?c) \<in> Inr ` set organisation_tags
             \<and> organisation_loop (iter ?c) no_fields = Inr ?fs1"
    by code_simp
  have s: "state_code ?fs1 = Some ''TX''" "''TX'' \<noteq> []"
    by simp_all
  have cur: "cur_airport_id ?st = Some ''AH_2''" "''AH_2'' \<noteq> []"
    by simp_all
  have ts: "airport_timeslice plain_decimal ?st state_slice = Inr ?st'"
    by code_simp
  have k: "\<not> falsy (state_code ?fs1)"
    by simp
  note t = C7_first_found_state_code
      [where pyfloat = plain_decimal and pre = ?pre and ?fs0.0 = no_fields and ?fs1.0 = ?fs1
         and ts = state_slice and c = ?c and post = ?post and s = "''TX''" and st = ?st
         and aid = "''AH_2''" and st' = ?st']
  from t ch pre c s cur ts
  have a: "\<exists>r. dict_get (airports ?st') ''AH_2'' = Some r \<and> a_state_code r = Some ''TX''"
    by blast
  from a ts show ?thesis by simp
qed

text \<open>
  The claim as the specification states it fails on a time slice whose organisation
  block comes before its extension: the extension alone gives the code \<open>CA\<close>, and the
  record is stored with the code \<open>TX\<close> of the address.
\<close>

theorem C7_extension_not_preferred:
  "index_airports plain_decimal (iterparse airports_clear state_example) =
     Inr ([(''AH_2'',
            \<lparr>a_code = Some ''TEST'', a_name = Some ''Test Field'', a_icao = None,
             a_lat = None, a_lon = None, a_city = Some ''Shelby'',
             a_state_code = Some ''TX'', a_state = None\<rparr>)], [])
   \<and> map_sum id state_code
        (extension_loop (iter (node ''extension'' [leaf ''countyStatePostOfficeCode'' ''CA'']))
           (no_fields :: (int \<times> nat) fields)) = Inr (Some ''CA'')"
  by code_simp

end
